theory Spec2Isabelle
  imports Complex_Main "HOL-Library.Word"
begin

section \<open>The session layer of nebula-go (session.go)\<close>

text \<open>
  The theory embeds \<^verbatim>\<open>session.go\<close>: the conversion of host values to wire values
  (\<^verbatim>\<open>value2Nvalue\<close>, \<^verbatim>\<open>slice2Nlist\<close>, \<^verbatim>\<open>map2Nmap\<close>), the classification
  predicates (\<^verbatim>\<open>IsQueryOk\<close>, \<^verbatim>\<open>IsServerSessionError\<close>), the retry loops of the two
  execute paths, the reconnect loop, and \<^verbatim>\<open>Release\<close>.
\<close>

subsection \<open>Errors\<close>

text \<open>
  A Go \<^verbatim>\<open>error\<close> is an interface value; \<^verbatim>\<open>nil\<close> is \<open>None\<close> of \<open>error option\<close>.
  The only thing the source asks about the dynamic type of an error is
  \<^verbatim>\<open>err.(thrift.TransportException)\<close>, so there are two kinds of error values: those that
  implement \<^verbatim>\<open>thrift.TransportException\<close>, and all the others (such as the results of
  \<^verbatim>\<open>fmt.Errorf\<close>). Both carry their message.
\<close>

datatype error = TransportException string | Errorf string

fun is_TransportException :: "error option \<Rightarrow> bool" where
  "is_TransportException (Some (TransportException m)) = True"
| "is_TransportException (Some (Errorf m)) = False"
| "is_TransportException None = False"

subsection \<open>Floating-point host values\<close>

text \<open>
  A \<^verbatim>\<open>float64\<close> or \<^verbatim>\<open>float32\<close> is an IEEE-754 binary value: \<open>Finite m e\<close> stands for
  \<open>m * 2 ^ e\<close> (the two zeros are both \<open>Finite 0 e\<close>; Go's \<^verbatim>\<open>==\<close> does not tell them
  apart), and there are the two infinities and NaN. \<open>is_float64\<close> and \<open>is_float32\<close> bound
  mantissa and exponent as the two formats do.
\<close>

datatype float = Finite int int | PInf | NInf | NaN

fun is_float64 :: "float \<Rightarrow> bool" where
  "is_float64 (Finite m e) = (\<bar>m\<bar> < 2 ^ 53 \<and> - 1074 \<le> e \<and> e \<le> 971)"
| "is_float64 v = True"

fun is_float32 :: "float \<Rightarrow> bool" where
  "is_float32 (Finite m e) = (\<bar>m\<bar> < 2 ^ 24 \<and> - 149 \<le> e \<and> e \<le> 104)"
| "is_float32 v = True"

text \<open>The number a finite float stands for.\<close>

definition valof :: "int \<Rightarrow> int \<Rightarrow> rat" where
  "valof m e = (if 0 \<le> e then of_int (m * 2 ^ nat e) else of_int m / of_int (2 ^ nat (- e)))"

text \<open>Go's \<^verbatim>\<open>==\<close> on floats: NaN equals nothing, finite values are compared as numbers.\<close>

fun float_eq :: "float \<Rightarrow> float \<Rightarrow> bool" where
  "float_eq (Finite m1 e1) (Finite m2 e2) =
     (m1 * 2 ^ nat (e1 - min e1 e2) = m2 * 2 ^ nat (e2 - min e1 e2))"
| "float_eq PInf PInf = True"
| "float_eq NInf NInf = True"
| "float_eq a b = False"

text \<open>
  The conversion \<^verbatim>\<open>int64(v)\<close> of a float discards the fraction (truncation towards
  zero). When the truncated value does not fit \<^verbatim>\<open>int64\<close>, or \<open>v\<close> is an infinity or
  NaN, the Go specification leaves the result to the implementation: \<open>unrep\<close> is that
  choice, a parameter of the model (\<open>unrep_amd64\<close> is what amd64 does).
\<close>

definition trunc_float :: "int \<Rightarrow> int \<Rightarrow> int" where
  "trunc_float m e = (if 0 \<le> e then m * 2 ^ nat e else sgn m * (\<bar>m\<bar> div 2 ^ nat (- e)))"

type_synonym int64 = "64 word"

fun int64_of_float :: "(float \<Rightarrow> int64) \<Rightarrow> float \<Rightarrow> int64" where
  "int64_of_float unrep (Finite m e) =
     (let t = trunc_float m e
      in if - (2 ^ 63) \<le> t \<and> t < 2 ^ 63 then word_of_int t else unrep (Finite m e))"
| "int64_of_float unrep v = unrep v"

definition unrep_amd64 :: "float \<Rightarrow> int64" where
  "unrep_amd64 v = word_of_int (- (2 ^ 63))"

text \<open>
  The conversions \<^verbatim>\<open>float64(i)\<close> and \<^verbatim>\<open>float32(i)\<close> of an \<^verbatim>\<open>int64\<close> round to
  the nearest value with 53 and 24 significant bits, ties to even.
\<close>

fun bitlen :: "nat \<Rightarrow> nat" where
  "bitlen n = (if n = 0 then 0 else Suc (bitlen (n div 2)))"

declare bitlen.simps [simp del]

definition round_nat :: "nat \<Rightarrow> nat \<Rightarrow> nat" where
  "round_nat p a =
     (if bitlen a \<le> p then a
      else let s = bitlen a - p; q = a div 2 ^ s; r = a mod 2 ^ s; h = 2 ^ (s - 1)
           in (if h < r \<or> (r = h \<and> odd q) then q + 1 else q) * 2 ^ s)"

definition float_of_int64 :: "nat \<Rightarrow> int64 \<Rightarrow> float" where
  "float_of_int64 p i = Finite (sgn (sint i) * int (round_nat p (nat \<bar>sint i\<bar>))) 0"

subsection \<open>Wire values and host values\<close>

text \<open>
  \<^verbatim>\<open>nebula.Value\<close> is a thrift union: a struct of optional fields of which the source
  populates at most one. \<open>VEmpty\<close> is the value \<^verbatim>\<open>nebula.NewValue()\<close> returns, with no
  field set; \<open>LVal\<close> holds the \<^verbatim>\<open>Values\<close> of an \<^verbatim>\<open>NList\<close> and \<open>MVal\<close> the
  \<^verbatim>\<open>Kvs\<close> of an \<^verbatim>\<open>NMap\<close>. The temporal and geographic structs are declared in the
  \<^verbatim>\<open>nebula\<close> package, outside this file; the source only stores them, so each is an
  opaque payload here. \<open>VOther\<close> is a value with one of the fields this file never sets
  (vertex, edge, path, set, data set).

  A Go map is an association list in the order the \<^verbatim>\<open>range\<close> loop visits it; its
  keys are distinct.
\<close>

datatype NullType = NullType_NULL
datatype Date = Date string
datatype Time = Time string
datatype DateTime = DateTime string
datatype Duration = Duration string
datatype Geography = Geography string

datatype Value =
    VEmpty
  | NVal NullType
  | BVal bool
  | IVal int64
  | FVal float
  | SVal string
  | DVal Date
  | TVal Time
  | DtVal DateTime
  | LVal "Value list"
  | MVal "(string \<times> Value) list"
  | GgVal Geography
  | DuVal Duration
  | VOther string

text \<open>
  The argument of \<^verbatim>\<open>value2Nvalue\<close> is an \<^verbatim>\<open>interface{}\<close>: a value together with its
  dynamic type. There is one constructor for each type the function asks for, in the order
  it asks; \<open>HNil\<close> is the nil interface; \<open>HOther t\<close> is a value of any other dynamic type,
  \<open>t\<close> being the name \<^verbatim>\<open>%T\<close> prints for it (\<^verbatim>\<open>int64\<close>, \<^verbatim>\<open>[]string\<close>,
  \<^verbatim>\<open>*nebula.Value\<close>, a struct of the caller, ...). \<open>HInt\<close> is Go's \<^verbatim>\<open>int\<close> on a
  64-bit platform, where \<^verbatim>\<open>int64(v)\<close> changes nothing. Values are finite trees: a slice
  that contains itself is not a value of this type.
\<close>

datatype HostValue =
    HBool bool
  | HInt int64
  | HFloat64 float
  | HFloat32 float
  | HString string
  | HNil
  | HSlice "HostValue list"
  | HMap "(string \<times> HostValue) list"
  | HValue Value
  | HDate Date
  | HDateTime DateTime
  | HDuration Duration
  | HTime Time
  | HGeography Geography
  | HOther string

subsection \<open>The codec\<close>

text \<open>
  \<^verbatim>\<open>value2Nvalue\<close> returns a pair \<^verbatim>\<open>(value, err)\<close>; on an error the value is still
  returned (the callers drop it). \<open>slice2Nlist_loop\<close> is the \<^verbatim>\<open>for\<close> loop of
  \<^verbatim>\<open>slice2Nlist\<close> with its accumulator \<^verbatim>\<open>sv\<close>; \<^verbatim>\<open>slice2Nlist\<close> returns
  \<^verbatim>\<open>(nil, er)\<close> at the first element that fails. \<^verbatim>\<open>map2Nmap\<close> returns the map that
  \<^verbatim>\<open>parseParams\<close> made (a nil map being an empty one), or \<^verbatim>\<open>(nil, err)\<close>. The
  functions call each other, so they are defined together; the measure of the termination
  proof is the size of the host value.
\<close>

text \<open>
  Modelled from the spec: \<open>parseParams\<close> and its loop \<open>parseParams_loop\<close>.
  \<^verbatim>\<open>parseParams\<close> is called by \<^verbatim>\<open>map2Nmap\<close> and by \<^verbatim>\<open>ExecuteWithParameter\<close> but is
  defined outside \<^verbatim>\<open>session.go\<close>. The spec says of a mapping that it is "recursively
  converted; first failure aborts". That is also what the loop written out in
  \<^verbatim>\<open>ExecuteJsonWithParameter\<close> does, which returns the error of the element as it is:
  \<open>parseParams_loop\<close> is that loop, with its accumulator \<^verbatim>\<open>paramsMap\<close>.
\<close>

function (sequential) value2Nvalue :: "(float \<Rightarrow> int64) \<Rightarrow> HostValue \<Rightarrow> Value \<times> error option"
  and slice2Nlist :: "(float \<Rightarrow> int64) \<Rightarrow> HostValue list \<Rightarrow> Value list option \<times> error option"
  and slice2Nlist_loop :: "(float \<Rightarrow> int64) \<Rightarrow> Value list \<Rightarrow> HostValue list
        \<Rightarrow> Value list option \<times> error option"
  and map2Nmap :: "(float \<Rightarrow> int64) \<Rightarrow> (string \<times> HostValue) list
        \<Rightarrow> (string \<times> Value) list option \<times> error option"
  and parseParams :: "(float \<Rightarrow> int64) \<Rightarrow> (string \<times> HostValue) list
        \<Rightarrow> (string \<times> Value) list option \<times> error option"
  and parseParams_loop :: "(float \<Rightarrow> int64) \<Rightarrow> (string \<times> Value) list
        \<Rightarrow> (string \<times> HostValue) list \<Rightarrow> (string \<times> Value) list option \<times> error option"
where
  "value2Nvalue u (HBool v) = (BVal v, None)"
| "value2Nvalue u (HInt v) = (IVal v, None)"
| "value2Nvalue u (HFloat64 v) =
     (if float_eq v (float_of_int64 53 (int64_of_float u v))
      then (IVal (int64_of_float u v), None)
      else (FVal v, None))"
| "value2Nvalue u (HFloat32 v) =
     (if float_eq v (float_of_int64 24 (int64_of_float u v))
      then (IVal (int64_of_float u v), None)
      else (FVal v, None))"
| "value2Nvalue u (HString v) = (SVal v, None)"
| "value2Nvalue u HNil = (NVal NullType_NULL, None)"
| "value2Nvalue u (HSlice v) =
     (case slice2Nlist u v of
        (None, er) \<Rightarrow> (VEmpty, er)
      | (Some nv, er) \<Rightarrow> (LVal nv, er))"
| "value2Nvalue u (HMap v) =
     (case map2Nmap u v of
        (None, er) \<Rightarrow> (VEmpty, er)
      | (Some nv, er) \<Rightarrow> (MVal nv, er))"
| "value2Nvalue u (HValue v) = (v, None)"
| "value2Nvalue u (HDate v) = (DVal v, None)"
| "value2Nvalue u (HDateTime v) = (DtVal v, None)"
| "value2Nvalue u (HDuration v) = (DuVal v, None)"
| "value2Nvalue u (HTime v) = (TVal v, None)"
| "value2Nvalue u (HGeography v) = (GgVal v, None)"
| "value2Nvalue u (HOther t) =
     (VEmpty, Some (Errorf
        (''Only support convert boolean/float/int/string/map/list to nebula.Value but '' @ t)))"
| "slice2Nlist u list = slice2Nlist_loop u [] list"
| "slice2Nlist_loop u sv [] = (Some sv, None)"
| "slice2Nlist_loop u sv (item # list) =
     (case value2Nvalue u item of
        (nv, Some er) \<Rightarrow> (None, Some er)
      | (nv, None) \<Rightarrow> slice2Nlist_loop u (sv @ [nv]) list)"
| "map2Nmap u m =
     (case parseParams u m of
        (kvs, Some err) \<Rightarrow> (None, Some err)
      | (None, None) \<Rightarrow> (Some [], None)
      | (Some kvs, None) \<Rightarrow> (Some kvs, None))"
| "parseParams u params = parseParams_loop u [] params"
| "parseParams_loop u paramsMap [] = (Some paramsMap, None)"
| "parseParams_loop u paramsMap ((k, v) # params) =
     (case value2Nvalue u v of
        (nv, Some er) \<Rightarrow> (None, Some er)
      | (nv, None) \<Rightarrow> parseParams_loop u (paramsMap @ [(k, nv)]) params)"
  by pat_completeness auto

termination
  by (relation "measure (\<lambda>x. case x of
        Inl (Inl (u, v)) \<Rightarrow> 3 * size v
      | Inl (Inr (Inl (u, list))) \<Rightarrow> 3 * size_list size list + 1
      | Inl (Inr (Inr (u, sv, list))) \<Rightarrow> 3 * size_list size list
      | Inr (Inl (u, m)) \<Rightarrow> 3 * size_list (size_prod (\<lambda>k. 0) size) m + 2
      | Inr (Inr (Inl (u, params))) \<Rightarrow> 3 * size_list (size_prod (\<lambda>k. 0) size) params + 1
      | Inr (Inr (Inr (u, paramsMap, params))) \<Rightarrow>
          3 * size_list (size_prod (\<lambda>k. 0) size) params)")
    auto

subsection \<open>Responses and their classification\<close>

text \<open>
  Modelled from the spec: \<^verbatim>\<open>nebula.ErrorCode\<close> and \<^verbatim>\<open>graph.ExecutionResponse\<close> are
  declared in the generated thrift packages, outside \<^verbatim>\<open>session.go\<close>. The spec says of
  a response that it "carries an error code, optional error message, and on success the
  row/column data", and that two server error codes mean that the session is invalid.
  The source names three codes; \<open>ErrorCode_OTHER\<close> is any other one. A response pointer
  may be \<^verbatim>\<open>nil\<close>: it is an \<open>ExecutionResponse option\<close>.
\<close>

datatype ErrorCode =
    ErrorCode_SUCCEEDED
  | ErrorCode_E_SESSION_INVALID
  | ErrorCode_E_SESSION_TIMEOUT
  | ErrorCode_OTHER int

record ExecutionResponse =
  GetErrorCode :: ErrorCode
  GetErrorMsg :: string
  GetData :: string

fun IsError :: "ExecutionResponse \<Rightarrow> bool" where
  "IsError resp = (GetErrorCode resp \<noteq> ErrorCode_SUCCEEDED)"

fun IsServerSessionError :: "ExecutionResponse option \<Rightarrow> bool" where
  "IsServerSessionError None = False"
| "IsServerSessionError (Some resp) =
     (GetErrorCode resp = ErrorCode_E_SESSION_INVALID
      \<or> GetErrorCode resp = ErrorCode_E_SESSION_TIMEOUT)"

definition IsQueryOk :: "error option \<Rightarrow> ExecutionResponse option \<Rightarrow> bool" where
  "IsQueryOk err resp = (err = None \<and> \<not> IsServerSessionError resp)"

subsection \<open>The session and its collaborators\<close>

text \<open>
  Modelled from the spec: \<^verbatim>\<open>RetryConfig\<close>, \<^verbatim>\<open>ReconnectConfig\<close>, \<^verbatim>\<open>connection\<close>,
  \<^verbatim>\<open>ConnectionPool\<close>, \<^verbatim>\<open>SessionPool\<close> and \<^verbatim>\<open>ResultSet\<close> are declared in other
  files of the package. The records below have the fields \<^verbatim>\<open>session.go\<close> reads
  (\<^verbatim>\<open>MaxTime\<close>, \<^verbatim>\<open>IdleTime\<close>, \<^verbatim>\<open>MaxTimeDuration\<close>, \<^verbatim>\<open>resp\<close>); the spec calls
  them "max attempt count", "idle sleep duration" and "max total elapsed duration".
  Counts are Go \<^verbatim>\<open>int\<close>s and durations are nanoseconds; the loops never count beyond
  a positive \<^verbatim>\<open>MaxTime\<close>, so they are unbounded integers here. A connection and a pool
  are handles (the identity of the Go pointer).
\<close>

record RetryConfig =
  MaxTime :: int
  IdleTime :: int

record ReconnectConfig =
  MaxTimeDuration :: int
  MaxTime :: int
  IdleTime :: int

datatype connection = Conn nat
datatype ConnectionPool = ConnectionPool nat
datatype SessionPool = SessionPool nat

record timezoneInfo =
  offset :: "32 word"
  name :: string

record ResultSet =
  resp :: "ExecutionResponse option"
  decoded :: string

text \<open>
  The \<^verbatim>\<open>Session\<close> struct. The logger and the mutex are not fields of the record: a call
  of the logger is an event of the trace below, and the operations are modelled one at a
  time, as the mutex serialises them.
\<close>

record Session =
  sessionID :: int64
  connection :: "connection option"
  connPool :: "ConnectionPool option"
  sessPool :: "SessionPool option"
  returnedAt :: int
  timezoneInfo :: timezoneInfo
  reconnectCfg :: ReconnectConfig
  retryCfg :: RetryConfig

text \<open>
  Every call the session makes on a collaborator (the transport, a pool, the logger, the
  clock's \<^verbatim>\<open>Sleep\<close>) is an event, and the state of the world is the list of the events
  so far, oldest first. What a collaborator answers is a function of that history, the
  event of the call itself included: the record \<open>Env\<close> holds one such function for each
  collaborator that returns something. \<open>genResultSet\<close> is defined in another file; it is
  a parameter too, as is what \<^verbatim>\<open>int64(v)\<close> yields for a float outside the range.
  \<open>fmt_Errorf\<close> is the message of the error that \<^verbatim>\<open>fmt.Errorf\<close> makes of a format
  given with no operand: it is the format itself when no \<^verbatim>\<open>%\<close> occurs in it, and
  otherwise what the formatter of the library makes of the verbs, which is left open.
  A log event keeps the level of the message, not its text.
\<close>

datatype LogLevel = LogInfo | LogWarn | LogError

datatype Event =
    Ev_executeWithParameter connection int64 string "(string \<times> Value) list"
  | Ev_ExecuteJsonWithParameter connection int64 string "(string \<times> Value) list"
  | Ev_signOut connection int64
  | Ev_close connection
  | Ev_getIdleConn ConnectionPool
  | Ev_release ConnectionPool "connection option"
  | Ev_newSession SessionPool
  | Ev_Sleep int
  | Ev_log LogLevel

record Env =
  executeWithParameter_result :: "Event list \<Rightarrow> ExecutionResponse option \<times> error option"
  ExecuteJsonWithParameter_result :: "Event list \<Rightarrow> string \<times> error option"
  signOut_result :: "Event list \<Rightarrow> error option"
  getIdleConn_result :: "Event list \<Rightarrow> error + connection"
  newSession_result :: "Event list \<Rightarrow> error + Session"
  genResultSet :: "ExecutionResponse option \<Rightarrow> timezoneInfo \<Rightarrow> error + ResultSet"
  time_Now :: "Event list \<Rightarrow> int"
  unrep :: "float \<Rightarrow> int64"
  fmt_Errorf :: "string \<Rightarrow> string"

text \<open>
  The closure \<^verbatim>\<open>f\<close> of \<^verbatim>\<open>executeWithReconnect\<close> returns an \<^verbatim>\<open>interface{}\<close> that
  is \<^verbatim>\<open>nil\<close>, a \<^verbatim>\<open>*ResultSet\<close> or a \<^verbatim>\<open>[]byte\<close>. A function that can panic (a
  nil pointer is dereferenced, a type assertion fails) returns a \<open>res\<close>; one that
  contains a loop returns an \<open>option\<close>, \<open>None\<close> when the loop never ends.
\<close>

datatype iface = INil | IResultSet ResultSet | IBytes string

datatype 'a res = Ret 'a | Panic

subsection \<open>The retry loops\<close>

text \<open>
  The \<^verbatim>\<open>for\<close> loop of \<^verbatim>\<open>execFunc\<close> in \<^verbatim>\<open>ExecuteWithParameter\<close>, from the state
  at the head of an iteration: the counter \<^verbatim>\<open>retryTime\<close> and the history. It returns
  \<^verbatim>\<open>resp\<close> and \<^verbatim>\<open>err\<close> as they are when the loop is left (the variable
  \<^verbatim>\<open>resp\<close> is \<open>rsp\<close> here, \<open>resp\<close> being the field of a \<open>ResultSet\<close>).
\<close>

partial_function (option) execFunc_loop ::
  "Env \<Rightarrow> RetryConfig \<Rightarrow> connection \<Rightarrow> int64 \<Rightarrow> string \<Rightarrow> (string \<times> Value) list
    \<Rightarrow> int \<Rightarrow> Event list \<Rightarrow> ((ExecutionResponse option \<times> error option) \<times> Event list) option"
where
  "execFunc_loop env cfg c sid stmt paramsMap retryTime tr =
     (let tr1 = tr @ [Ev_executeWithParameter c sid stmt paramsMap];
          (rsp, err) = executeWithParameter_result env tr1
      in if IsQueryOk err rsp then Some ((rsp, err), tr1)
         else if is_TransportException err \<or> IsServerSessionError rsp
           then Some ((rsp, err), tr1)
         else let retryTime' =
                (if 0 < RetryConfig.MaxTime cfg then retryTime + 1 else retryTime)
           in if 0 < RetryConfig.MaxTime cfg \<and> RetryConfig.MaxTime cfg \<le> retryTime'
              then Some ((rsp, err), tr1)
              else execFunc_loop env cfg c sid stmt paramsMap retryTime'
                     (tr1 @ [Ev_log LogError, Ev_Sleep (RetryConfig.IdleTime cfg)]))"

text \<open>
  \<^verbatim>\<open>execFunc\<close> itself: the loop, then \<^verbatim>\<open>genResultSet\<close> when the loop ended without
  an error. The session is an argument because the closure reads the session's fields
  anew at every call.
\<close>

definition execFunc :: "Env \<Rightarrow> string \<Rightarrow> (string \<times> Value) list \<Rightarrow> Session \<Rightarrow> Event list
    \<Rightarrow> ((iface \<times> error option) \<times> Event list) res option" where
  "execFunc env stmt paramsMap s tr =
     (case connection s of
        None \<Rightarrow> Some Panic
      | Some c \<Rightarrow>
          (case execFunc_loop env (retryCfg s) c (sessionID s) stmt paramsMap 0 tr of
             None \<Rightarrow> None
           | Some ((rsp, err), tr1) \<Rightarrow>
               (case err of
                  Some e \<Rightarrow> Some (Ret ((INil, Some e), tr1))
                | None \<Rightarrow>
                    (case genResultSet env rsp (timezoneInfo s) of
                       Inl e \<Rightarrow> Some (Ret ((INil, Some e), tr1))
                     | Inr resSet \<Rightarrow> Some (Ret ((IResultSet resSet, None), tr1))))))"

text \<open>The loop of \<^verbatim>\<open>execFunc\<close> in \<^verbatim>\<open>ExecuteJsonWithParameter\<close>, which returns from inside.\<close>

partial_function (option) execFuncJson_loop ::
  "Env \<Rightarrow> RetryConfig \<Rightarrow> connection \<Rightarrow> int64 \<Rightarrow> string \<Rightarrow> (string \<times> Value) list
    \<Rightarrow> int \<Rightarrow> Event list \<Rightarrow> ((iface \<times> error option) \<times> Event list) option"
where
  "execFuncJson_loop env cfg c sid stmt paramsMap retryTime tr =
     (let tr1 = tr @ [Ev_ExecuteJsonWithParameter c sid stmt paramsMap];
          (rsp, err) = ExecuteJsonWithParameter_result env tr1
      in if err = None then Some ((IBytes rsp, None), tr1)
         else if is_TransportException err then Some ((INil, err), tr1)
         else let retryTime' =
                (if 0 < RetryConfig.MaxTime cfg then retryTime + 1 else retryTime)
           in if 0 < RetryConfig.MaxTime cfg \<and> RetryConfig.MaxTime cfg \<le> retryTime'
              then Some ((INil, err), tr1)
              else execFuncJson_loop env cfg c sid stmt paramsMap retryTime'
                     (tr1 @ [Ev_log LogError, Ev_Sleep (RetryConfig.IdleTime cfg)]))"

definition execFuncJson :: "Env \<Rightarrow> string \<Rightarrow> (string \<times> Value) list \<Rightarrow> Session \<Rightarrow> Event list
    \<Rightarrow> ((iface \<times> error option) \<times> Event list) res option" where
  "execFuncJson env stmt paramsMap s tr =
     (case connection s of
        None \<Rightarrow> Some Panic
      | Some c \<Rightarrow>
          (case execFuncJson_loop env (retryCfg s) c (sessionID s) stmt paramsMap 0 tr of
             None \<Rightarrow> None
           | Some r \<Rightarrow> Some (Ret r)))"

subsection \<open>Reconnecting\<close>

text \<open>
  \<^verbatim>\<open>reConnect\<close> returns its error, the session as it leaves it, and the history.
  \<open>Error_msg\<close> is the method \<^verbatim>\<open>Error()\<close>; \<^verbatim>\<open>fmt.Errorf(err.Error())\<close> is a new
  error that is not a transport exception, and its message is the message of the pool's
  error used as a format.
\<close>

fun Error_msg :: "error \<Rightarrow> string" where
  "Error_msg (TransportException m) = m"
| "Error_msg (Errorf m) = m"

definition reConnect :: "Env \<Rightarrow> Session \<Rightarrow> Event list \<Rightarrow> error option \<times> Session \<times> Event list" where
  "reConnect env s tr =
     (case connPool s of
        Some pool \<Rightarrow>
          (let tr1 = tr @ [Ev_getIdleConn pool]
           in case getIdleConn_result env tr1 of
                Inl err \<Rightarrow> (Some (Errorf (fmt_Errorf env (Error_msg err))), s, tr1)
              | Inr newconnection \<Rightarrow>
                  (None, s\<lparr>connection := Some newconnection\<rparr>,
                   tr1 @ [Ev_release pool (connection s)]))
      | None \<Rightarrow>
          (case sessPool s of
             Some pool \<Rightarrow>
               (let tr1 = tr @ [Ev_newSession pool]
                in case newSession_result env tr1 of
                     Inl err \<Rightarrow> (Some (Errorf (fmt_Errorf env (Error_msg err))), s, tr1)
                   | Inr newsession \<Rightarrow>
                       (let tr2 =
                          (case connection s of
                             None \<Rightarrow> tr1
                           | Some c \<Rightarrow>
                               (let tr3 = tr1 @ [Ev_log LogWarn, Ev_signOut c (sessionID s)];
                                    tr4 = (if signOut_result env tr3 = None then tr3
                                           else tr3 @ [Ev_log LogWarn])
                                in tr4 @ [Ev_close c]))
                        in (None,
                            s\<lparr>sessionID := sessionID newsession,
                              connection := connection newsession,
                              returnedAt := returnedAt newsession\<rparr>,
                            tr2)))
           | None \<Rightarrow> (None, s, tr)))"

text \<open>
  The \<^verbatim>\<open>for\<close> loop of \<^verbatim>\<open>reconnectWithExecuteErr\<close>, from the head of an iteration.
  \<^verbatim>\<open>time.Since(startRetryTime)\<close> is the clock now minus \<^verbatim>\<open>startRetryTime\<close>. The
  loop returns \<^verbatim>\<open>_err\<close> as it is when the loop is left.
\<close>

partial_function (option) reconnect_loop ::
  "Env \<Rightarrow> Session \<Rightarrow> int \<Rightarrow> int \<Rightarrow> Event list \<Rightarrow> (error option \<times> Session \<times> Event list) option"
where
  "reconnect_loop env s retryTime startRetryTime tr =
     (case reConnect env s tr of
        (None, s1, tr1) \<Rightarrow> Some (None, s1, tr1)
      | (Some e, s1, tr1) \<Rightarrow>
          (let tr2 = tr1 @ [Ev_log LogError];
               cfg = reconnectCfg s1
           in if MaxTimeDuration cfg \<noteq> 0 \<and> MaxTimeDuration cfg \<le> time_Now env tr2 - startRetryTime
              then Some (Some e, s1, tr2)
              else let retryTime' =
                     (if ReconnectConfig.MaxTime cfg \<noteq> 0 then retryTime + 1 else retryTime)
                in if ReconnectConfig.MaxTime cfg \<noteq> 0 \<and> ReconnectConfig.MaxTime cfg \<le> retryTime'
                   then Some (Some e, s1, tr2)
                   else reconnect_loop env s1 retryTime' startRetryTime
                          (tr2 @ [Ev_Sleep (ReconnectConfig.IdleTime cfg)])))"

definition reconnectWithExecuteErr ::
  "Env \<Rightarrow> Session \<Rightarrow> ExecutionResponse option \<Rightarrow> error option \<Rightarrow> Event list
    \<Rightarrow> (error option \<times> Session \<times> Event list) res option" where
  "reconnectWithExecuteErr env s rsp err tr =
     (if \<not> is_TransportException err \<and> \<not> IsServerSessionError rsp then Some (Ret (err, s, tr))
      else case reconnect_loop env s 0 (time_Now env tr) tr of
             None \<Rightarrow> None
           | Some (Some e, s1, tr1) \<Rightarrow> Some (Ret (Some (Errorf ''Nebula Down''), s1, tr1))
           | Some (None, s1, tr1) \<Rightarrow>
               (case connection s1 of
                  None \<Rightarrow> Some Panic
                | Some c \<Rightarrow> Some (Ret (None, s1, tr1 @ [Ev_log LogInfo]))))"

definition executeWithReconnect ::
  "Env \<Rightarrow> (Session \<Rightarrow> Event list \<Rightarrow> ((iface \<times> error option) \<times> Event list) res option)
    \<Rightarrow> Session \<Rightarrow> Event list \<Rightarrow> ((iface \<times> error option) \<times> Session \<times> Event list) res option" where
  "executeWithReconnect env f s tr =
     (case f s tr of
        None \<Rightarrow> None
      | Some Panic \<Rightarrow> Some Panic
      | Some (Ret ((rsp, err), tr1)) \<Rightarrow>
          (let param = (case rsp of IResultSet ret \<Rightarrow> resp ret | _ \<Rightarrow> None)
           in if (case rsp of IResultSet ret \<Rightarrow> IsQueryOk err param | _ \<Rightarrow> err = None)
              then Some (Ret ((rsp, None), s, tr1))
              else (case reconnectWithExecuteErr env s param err tr1 of
                      None \<Rightarrow> None
                    | Some Panic \<Rightarrow> Some Panic
                    | Some (Ret (Some err2, s2, tr2)) \<Rightarrow> Some (Ret ((INil, Some err2), s2, tr2))
                    | Some (Ret (None, s2, tr2)) \<Rightarrow>
                        (case f s2 tr2 of
                           None \<Rightarrow> None
                         | Some Panic \<Rightarrow> Some Panic
                         | Some (Ret (r, tr3)) \<Rightarrow> Some (Ret (r, s2, tr3))))))"

subsection \<open>The operations of a session\<close>

text \<open>
  A \<^verbatim>\<open>nil\<close> map of parameters is an empty one. The last line of
  \<^verbatim>\<open>ExecuteWithParameter\<close> asserts that the result is a \<^verbatim>\<open>*ResultSet\<close> and panics
  when it is not.
\<close>

definition ExecuteWithParameter ::
  "Env \<Rightarrow> Session \<Rightarrow> string \<Rightarrow> (string \<times> HostValue) list \<Rightarrow> Event list
    \<Rightarrow> ((ResultSet option \<times> error option) \<times> Session \<times> Event list) res option" where
  "ExecuteWithParameter env s stmt params tr =
     (if connection s = None
      then Some (Ret ((None, Some (Errorf ''failed to execute: Session has been released'')), s, tr))
      else (case parseParams (unrep env) params of
              (paramsMap, Some err) \<Rightarrow> Some (Ret ((None, Some err), s, tr))
            | (paramsMap, None) \<Rightarrow>
                (case executeWithReconnect env
                        (execFunc env stmt (case paramsMap of None \<Rightarrow> [] | Some m \<Rightarrow> m)) s tr of
                   None \<Rightarrow> None
                 | Some Panic \<Rightarrow> Some Panic
                 | Some (Ret ((rsp, Some err), s1, tr1)) \<Rightarrow> Some (Ret ((None, Some err), s1, tr1))
                 | Some (Ret ((IResultSet resSet, None), s1, tr1)) \<Rightarrow>
                     Some (Ret ((Some resSet, None), s1, tr1))
                 | Some (Ret ((rsp, None), s1, tr1)) \<Rightarrow> Some Panic)))"

definition Execute ::
  "Env \<Rightarrow> Session \<Rightarrow> string \<Rightarrow> Event list
    \<Rightarrow> ((ResultSet option \<times> error option) \<times> Session \<times> Event list) res option" where
  "Execute env s stmt tr = ExecuteWithParameter env s stmt [] tr"

definition ExecuteJsonWithParameter ::
  "Env \<Rightarrow> Session \<Rightarrow> string \<Rightarrow> (string \<times> HostValue) list \<Rightarrow> Event list
    \<Rightarrow> ((string option \<times> error option) \<times> Session \<times> Event list) res option" where
  "ExecuteJsonWithParameter env s stmt params tr =
     (if connection s = None
      then Some (Ret ((None, Some (Errorf ''failed to execute: Session has been released'')), s, tr))
      else (case parseParams_loop (unrep env) [] params of
              (paramsMap, Some er) \<Rightarrow> Some (Ret ((None, Some er), s, tr))
            | (paramsMap, None) \<Rightarrow>
                (case executeWithReconnect env
                        (execFuncJson env stmt (case paramsMap of None \<Rightarrow> [] | Some m \<Rightarrow> m)) s tr of
                   None \<Rightarrow> None
                 | Some Panic \<Rightarrow> Some Panic
                 | Some (Ret ((rsp, Some err), s1, tr1)) \<Rightarrow> Some (Ret ((None, Some err), s1, tr1))
                 | Some (Ret ((IBytes b, None), s1, tr1)) \<Rightarrow> Some (Ret ((Some b, None), s1, tr1))
                 | Some (Ret ((rsp, None), s1, tr1)) \<Rightarrow> Some Panic)))"

definition ExecuteJson ::
  "Env \<Rightarrow> Session \<Rightarrow> string \<Rightarrow> Event list
    \<Rightarrow> ((string option \<times> error option) \<times> Session \<times> Event list) res option" where
  "ExecuteJson env s stmt tr = ExecuteJsonWithParameter env s stmt [] tr"

text \<open>
  \<^verbatim>\<open>Release\<close> has a pointer receiver that may be \<^verbatim>\<open>nil\<close>, and returns nothing: the
  model returns the session and the history.
\<close>

fun Release :: "Env \<Rightarrow> Session option \<Rightarrow> Event list \<Rightarrow> Session option \<times> Event list" where
  "Release env None tr = (None, tr)"
| "Release env (Some s) tr =
     (case connection s of
        None \<Rightarrow> (Some s, tr @ [Ev_log LogWarn])
      | Some c \<Rightarrow>
          (let tr1 = tr @ [Ev_signOut c (sessionID s)];
               tr2 = (if signOut_result env tr1 = None then tr1 else tr1 @ [Ev_log LogWarn]);
               tr3 = (case connPool s of
                        None \<Rightarrow> tr2
                      | Some pool \<Rightarrow> tr2 @ [Ev_release pool (connection s)])
           in (Some (s\<lparr>connection := None\<rparr>), tr3)))"

definition GetSessionID :: "Session \<Rightarrow> int64" where
  "GetSessionID s = sessionID s"

subsection \<open>Notions used by the statements\<close>

text \<open>
  A host value is convertible when no value of an unsupported dynamic type occurs in it,
  at any depth.
\<close>

fun convertible :: "HostValue \<Rightarrow> bool"
  and convertible_list :: "HostValue list \<Rightarrow> bool"
  and convertible_map :: "(string \<times> HostValue) list \<Rightarrow> bool"
where
  "convertible (HSlice v) = convertible_list v"
| "convertible (HMap v) = convertible_map v"
| "convertible (HOther t) = False"
| "convertible v = True"
| "convertible_list [] = True"
| "convertible_list (item # list) = (convertible item \<and> convertible_list list)"
| "convertible_map [] = True"
| "convertible_map ((k, v) # params) = (convertible v \<and> convertible_map params)"

text \<open>
  \<^verbatim>\<open>value2Nvalue\<close> returns a pointer, \<^verbatim>\<open>*nebula.Value\<close>. \<open>ptr_Value w\<close> is that
  pointer, to the value \<open>w\<close>, handed over as an \<^verbatim>\<open>interface{}\<close>: its dynamic type is
  \<^verbatim>\<open>*nebula.Value\<close>, which is none of the types \<^verbatim>\<open>value2Nvalue\<close> asks for (it asks for
  \<^verbatim>\<open>nebula.Value\<close>, the value itself, which is \<open>HValue w\<close>), and the function never looks
  behind a pointer.
\<close>

definition ptr_Value :: "Value \<Rightarrow> HostValue" where
  "ptr_Value w = HOther ''*nebula.Value''"

text \<open>
  An outcome of the remote call is retryable when the loop of \<^verbatim>\<open>execFunc\<close> goes round
  again after it (as long as the bound allows): neither of the two \<^verbatim>\<open>break\<close> tests at
  the head of the loop body holds. \<open>retry_rounds ev idle n\<close> is the history of \<open>n\<close> such
  rounds: the call, the error logged, the sleep.
\<close>

definition retryable :: "ExecutionResponse option \<times> error option \<Rightarrow> bool" where
  "retryable out =
     (case out of (rsp, err) \<Rightarrow>
        \<not> IsQueryOk err rsp \<and> \<not> is_TransportException err \<and> \<not> IsServerSessionError rsp)"

definition retry_rounds :: "Event \<Rightarrow> int \<Rightarrow> nat \<Rightarrow> Event list" where
  "retry_rounds ev idle n = concat (replicate n [ev, Ev_log LogError, Ev_Sleep idle])"

text \<open>
  A failed call of \<^verbatim>\<open>reConnect\<close> leaves one event, the call of the pool the session
  belongs to. \<open>reconnect_rounds s n\<close> is the history of \<open>n\<close> failed rounds of the loop of
  \<^verbatim>\<open>reconnectWithExecuteErr\<close> that go on: the attempt, the error logged, the sleep.
\<close>

definition reconnect_attempt :: "Session \<Rightarrow> Event list" where
  "reconnect_attempt s =
     (case connPool s of
        Some pool \<Rightarrow> [Ev_getIdleConn pool]
      | None \<Rightarrow> (case sessPool s of Some pool \<Rightarrow> [Ev_newSession pool] | None \<Rightarrow> []))"

definition reconnect_rounds :: "Session \<Rightarrow> nat \<Rightarrow> Event list" where
  "reconnect_rounds s n =
     concat (replicate n
       (reconnect_attempt s
        @ [Ev_log LogError, Ev_Sleep (ReconnectConfig.IdleTime (reconnectCfg s))]))"

text \<open>
  When every attempt so far has failed, \<open>reconnect_check s tr j\<close> is the history at which
  the loop, entered at the history \<open>tr\<close>, tests its bounds for the time number \<open>j + 1\<close>:
  \<open>j\<close> rounds that went on, one more attempt, the error logged. \<open>reconnect_stops env s tr j\<close>
  is the outcome of the two tests there, in the order of the code: the time bound is not
  zero and the clock, read at that history, is at least the bound past the clock read on
  entry; or the attempt bound is not zero and the counter, which is then \<open>j + 1\<close>, has
  reached it.
\<close>

definition reconnect_check :: "Session \<Rightarrow> Event list \<Rightarrow> nat \<Rightarrow> Event list" where
  "reconnect_check s tr j = tr @ reconnect_rounds s j @ reconnect_attempt s @ [Ev_log LogError]"

definition reconnect_stops :: "Env \<Rightarrow> Session \<Rightarrow> Event list \<Rightarrow> nat \<Rightarrow> bool" where
  "reconnect_stops env s tr j =
     ((MaxTimeDuration (reconnectCfg s) \<noteq> 0
        \<and> MaxTimeDuration (reconnectCfg s)
            \<le> time_Now env (reconnect_check s tr j) - time_Now env tr)
      \<or> (ReconnectConfig.MaxTime (reconnectCfg s) \<noteq> 0
        \<and> ReconnectConfig.MaxTime (reconnectCfg s) \<le> int j + 1))"

text \<open>
  A session and environments for the examples: the session belongs to a connection pool;
  \<open>ex_env\<close> builds an environment from the answers of the two execute calls and of the
  pool, with a clock that advances by one at every event. No message of the examples
  holds a \<^verbatim>\<open>%\<close>: formatting leaves them as they are.
\<close>

definition ex_session :: Session where
  "ex_session =
     \<lparr>sessionID = 7, connection = Some (Conn 1), connPool = Some (ConnectionPool 0),
      sessPool = None, returnedAt = 0, timezoneInfo = \<lparr>offset = 0, name = ''UTC''\<rparr>,
      reconnectCfg = \<lparr>MaxTimeDuration = 0, MaxTime = 2, IdleTime = 5\<rparr>,
      retryCfg = \<lparr>RetryConfig.MaxTime = 2, RetryConfig.IdleTime = 3\<rparr>\<rparr>"

definition ex_env ::
  "(Event list \<Rightarrow> ExecutionResponse option \<times> error option) \<Rightarrow> (Event list \<Rightarrow> string \<times> error option)
    \<Rightarrow> (Event list \<Rightarrow> error + connection) \<Rightarrow> Env" where
  "ex_env exec json idle =
     \<lparr>executeWithParameter_result = exec,
      ExecuteJsonWithParameter_result = json,
      signOut_result = (\<lambda>h. None),
      getIdleConn_result = idle,
      newSession_result = (\<lambda>h. Inl (Errorf ''no session'')),
      genResultSet = (\<lambda>r tz. Inr \<lparr>resp = r, decoded = []\<rparr>),
      time_Now = (\<lambda>h. int (length h)),
      unrep = unrep_amd64,
      fmt_Errorf = (\<lambda>format. format)\<rparr>"

definition ex_ok :: ExecutionResponse where
  "ex_ok = \<lparr>GetErrorCode = ErrorCode_SUCCEEDED, GetErrorMsg = [], GetData = ''1''\<rparr>"

definition ex_json_ok :: "Event list \<Rightarrow> string \<times> error option" where
  "ex_json_ok h = (''{}'', None)"

definition ex_idle_fails :: "Event list \<Rightarrow> error + connection" where
  "ex_idle_fails h = Inl (Errorf ''no idle connection'')"

definition ex_idle_ok :: "Event list \<Rightarrow> error + connection" where
  "ex_idle_ok h = Inr (Conn 2)"

definition ex_exec_boom :: "Event list \<Rightarrow> ExecutionResponse option \<times> error option" where
  "ex_exec_boom h = (None, Some (Errorf ''boom''))"

definition ex_env_boom :: Env where
  "ex_env_boom = ex_env ex_exec_boom ex_json_ok ex_idle_fails"

text \<open>
  The answers of the collaborators in the examples: a server that reports a syntax error,
  a transport that fails once and then works, a server that reports an invalid session
  once, a JSON reply that reports an invalid session,
  a transport that fails, then answers with a retryable error, then works; and sessions
  with a time bound only, with no bound, and with no pool.
\<close>

definition ex_json_session_invalid :: "Event list \<Rightarrow> string \<times> error option" where
  "ex_json_session_invalid h = (''{errors:[{code:E_SESSION_INVALID}]}'', None)"

definition ex_env_json_session_invalid :: Env where
  "ex_env_json_session_invalid = ex_env ex_exec_boom ex_json_session_invalid ex_idle_ok"

definition ex_exec_flaky :: "Event list \<Rightarrow> ExecutionResponse option \<times> error option" where
  "ex_exec_flaky h =
     (if length h = 1 then (None, Some (TransportException ''EOF''))
      else if length h = 5 then (None, Some (Errorf ''busy''))
      else (Some ex_ok, None))"

definition ex_env_flaky :: Env where
  "ex_env_flaky = ex_env ex_exec_flaky ex_json_ok ex_idle_ok"

definition ex_syntax_error :: ExecutionResponse where
  "ex_syntax_error =
     \<lparr>GetErrorCode = ErrorCode_OTHER (- 1004), GetErrorMsg = ''SyntaxError'', GetData = []\<rparr>"

definition ex_exec_syntax_error :: "Event list \<Rightarrow> ExecutionResponse option \<times> error option" where
  "ex_exec_syntax_error h = (Some ex_syntax_error, None)"

definition ex_env_syntax_error :: Env where
  "ex_env_syntax_error = ex_env ex_exec_syntax_error ex_json_ok ex_idle_fails"

definition ex_exec_eof_once :: "Event list \<Rightarrow> ExecutionResponse option \<times> error option" where
  "ex_exec_eof_once h =
     (if length h = 1 then (None, Some (TransportException ''EOF'')) else (Some ex_ok, None))"

definition ex_json_eof :: "Event list \<Rightarrow> string \<times> error option" where
  "ex_json_eof h = ([], Some (TransportException ''EOF''))"

definition ex_env_eof_once :: Env where
  "ex_env_eof_once = ex_env ex_exec_eof_once ex_json_eof ex_idle_ok"

definition ex_session_invalid :: ExecutionResponse where
  "ex_session_invalid =
     \<lparr>GetErrorCode = ErrorCode_E_SESSION_INVALID, GetErrorMsg = ''Session not existed'',
      GetData = []\<rparr>"

definition ex_exec_invalid_once :: "Event list \<Rightarrow> ExecutionResponse option \<times> error option" where
  "ex_exec_invalid_once h =
     (if length h = 1 then (Some ex_session_invalid, None) else (Some ex_ok, None))"

definition ex_env_invalid_once :: Env where
  "ex_env_invalid_once = ex_env ex_exec_invalid_once ex_json_ok ex_idle_ok"

definition ex_env_down :: Env where
  "ex_env_down = ex_env ex_exec_eof_once ex_json_eof ex_idle_fails"

definition ex_session_timed :: Session where
  "ex_session_timed =
     ex_session\<lparr>reconnectCfg := \<lparr>MaxTimeDuration = 10, MaxTime = 0, IdleTime = 5\<rparr>\<rparr>"

definition ex_session_unbounded :: Session where
  "ex_session_unbounded =
     ex_session\<lparr>reconnectCfg := \<lparr>MaxTimeDuration = 0, MaxTime = 0, IdleTime = 5\<rparr>\<rparr>"

definition ex_session_standalone :: Session where
  "ex_session_standalone = ex_session\<lparr>connPool := None\<rparr>"

text \<open>
  A session with both bounds of the reconnect policy set, and an environment whose pool
  has no connection and whose clock advances by the sleeps only: it shows the sum of the
  durations slept so far.
\<close>

definition ex_session_both :: Session where
  "ex_session_both =
     ex_session\<lparr>reconnectCfg := \<lparr>MaxTimeDuration = 1, MaxTime = 5, IdleTime = 5\<rparr>\<rparr>"

fun sleep_of :: "Event \<Rightarrow> int" where
  "sleep_of (Ev_Sleep d) = d"
| "sleep_of e = 0"

definition ex_clock_sleeps :: "Event list \<Rightarrow> int" where
  "ex_clock_sleeps h = sum_list (map sleep_of h)"

definition ex_env_down_sleeps :: Env where
  "ex_env_down_sleeps = ex_env_down\<lparr>time_Now := ex_clock_sleeps\<rparr>"

section \<open>Properties of the codec\<close>

subsection \<open>Conversions between floats and integers\<close>

lemma bitlen_le: "a < 2 ^ k \<Longrightarrow> bitlen a \<le> k"
proof (induction k arbitrary: a)
  case 0
  then show ?case by (simp add: bitlen.simps)
next
  case (Suc k)
  show ?case
  proof (cases "a = 0")
    case True
    then show ?thesis by (simp add: bitlen.simps)
  next
    case False
    from Suc.prems have "a div 2 < 2 ^ k" by simp
    from Suc.IH [OF this] False show ?thesis by (subst bitlen.simps) simp
  qed
qed

lemma round_nat_exact:
  assumes "a = m * 2 ^ k" and "m < 2 ^ p"
  shows "round_nat p a = a"
proof (cases "bitlen a \<le> p")
  case True
  then show ?thesis by (simp add: round_nat_def)
next
  case False
  define s where "s = bitlen a - p"
  from False have s0: "0 < s" by (simp add: s_def)
  have "a < 2 ^ (p + k)"
    using assms by (simp add: power_add)
  then have "bitlen a \<le> p + k" by (rule bitlen_le)
  then have "s \<le> k" by (simp add: s_def)
  then have "(2::nat) ^ s dvd 2 ^ k" by (simp add: le_imp_power_dvd)
  then have dv: "2 ^ s dvd a" using assms(1) by simp
  then have r: "a mod 2 ^ s = 0" by simp
  have h: "(0::nat) < 2 ^ (s - 1)" by simp
  from dv have "a div 2 ^ s * 2 ^ s = a" by simp
  with False r h show ?thesis
    unfolding round_nat_def Let_def s_def [symmetric] by simp
qed

lemma valof_int_cases:
  assumes "valof m e = of_int n"
  shows "(0 \<le> e \<and> n = m * 2 ^ nat e) \<or> (e < 0 \<and> m = n * 2 ^ nat (- e))"
proof (cases "0 \<le> e")
  case True
  with assms have "(of_int (m * 2 ^ nat e) :: rat) = of_int n" by (simp add: valof_def)
  then have "m * 2 ^ nat e = n" by (simp only: of_int_eq_iff)
  with True show ?thesis by simp
next
  case False
  with assms have "(of_int m :: rat) / of_int (2 ^ nat (- e)) = of_int n" by (simp add: valof_def)
  then have "(of_int m :: rat) = of_int n * of_int (2 ^ nat (- e))"
    by (simp add: field_simps)
  then have "(of_int m :: rat) = of_int (n * 2 ^ nat (- e))" by simp
  then have "m = n * 2 ^ nat (- e)" by (simp only: of_int_eq_iff)
  with False show ?thesis by simp
qed

lemma trunc_float_int:
  assumes "valof m e = of_int n"
  shows "trunc_float m e = n"
proof -
  from valof_int_cases [OF assms] show ?thesis
  proof (elim disjE conjE)
    assume "0 \<le> e" "n = m * 2 ^ nat e"
    then show ?thesis by (simp add: trunc_float_def)
  next
    assume e: "e < 0" and m: "m = n * 2 ^ nat (- e)"
    have "\<bar>m\<bar> div 2 ^ nat (- e) = \<bar>n\<bar>" by (simp add: m abs_mult)
    moreover have "sgn m = sgn n" by (simp add: m sgn_mult)
    ultimately show ?thesis using e by (simp add: trunc_float_def sgn_mult_abs)
  qed
qed

lemma float_eq_int: "float_eq (Finite m e) (Finite k 0) \<longleftrightarrow> valof m e = of_int k"
proof (cases "0 \<le> e")
  case True
  have "(of_int (m * 2 ^ nat e) :: rat) = of_int k \<longleftrightarrow> m * 2 ^ nat e = k"
    by (simp only: of_int_eq_iff)
  with True show ?thesis by (simp add: valof_def min_def)
next
  case False
  have "(of_int m :: rat) / of_int (2 ^ nat (- e)) = of_int k \<longleftrightarrow> (of_int m :: rat) = of_int (k * 2 ^ nat (- e))"
    by (simp add: field_simps)
  also have "\<dots> \<longleftrightarrow> m = k * 2 ^ nat (- e)" by (simp only: of_int_eq_iff)
  finally show ?thesis using False by (simp add: valof_def min_def)
qed

lemma int_float_mantissa:
  assumes "valof m e = of_int n" and "\<bar>m\<bar> < 2 ^ p"
  shows "\<exists>m' k. nat \<bar>n\<bar> = m' * 2 ^ k \<and> m' < 2 ^ p"
proof -
  from valof_int_cases [OF assms(1)] show ?thesis
  proof (elim disjE conjE)
    assume "0 \<le> e" and n: "n = m * 2 ^ nat e"
    have "nat \<bar>n\<bar> = nat \<bar>m\<bar> * 2 ^ nat e"
      by (simp add: n abs_mult nat_mult_distrib nat_power_eq)
    moreover have "nat \<bar>m\<bar> < 2 ^ p" using assms(2) by (simp add: nat_less_iff)
    ultimately show ?thesis by blast
  next
    assume "e < 0" and m: "m = n * 2 ^ nat (- e)"
    have "\<bar>n\<bar> \<le> \<bar>n\<bar> * 2 ^ nat (- e)" by (simp add: mult_le_cancel_left1)
    also have "\<dots> = \<bar>m\<bar>" by (simp add: m abs_mult)
    finally have "nat \<bar>n\<bar> < 2 ^ p" using assms(2) by (simp add: nat_less_iff)
    moreover have "nat \<bar>n\<bar> = nat \<bar>n\<bar> * 2 ^ 0" by simp
    ultimately show ?thesis by blast
  qed
qed

lemma sint_int64: "- (2 ^ 63) \<le> n \<Longrightarrow> n < 2 ^ 63 \<Longrightarrow> sint (word_of_int n :: int64) = n"
  by (simp add: signed_of_int signed_take_bit_int_eq_self)

lemma float_of_int64_exact:
  assumes "valof m e = of_int n" and "\<bar>m\<bar> < 2 ^ p" and "- (2 ^ 63) \<le> n" and "n < 2 ^ 63"
  shows "float_of_int64 p (word_of_int n) = Finite n 0"
proof -
  from int_float_mantissa [OF assms(1,2)] obtain m' k
    where "nat \<bar>n\<bar> = m' * 2 ^ k" and "m' < 2 ^ p" by blast
  then have "round_nat p (nat \<bar>n\<bar>) = nat \<bar>n\<bar>" by (rule round_nat_exact)
  then show ?thesis
    using assms(3,4) by (simp add: float_of_int64_def sint_int64 sgn_mult_abs)
qed

lemma int64_of_float_int:
  assumes "valof m e = of_int n" and "- (2 ^ 63) \<le> n" and "n < 2 ^ 63"
  shows "int64_of_float u (Finite m e) = word_of_int n"
  using assms by (simp add: trunc_float_int)

lemma bitlen_gt: "a < 2 ^ bitlen a"
proof (induction a rule: bitlen.induct)
  case (1 n)
  show ?case
  proof (cases "n = 0")
    case True
    then show ?thesis by simp
  next
    case False
    with 1 have "n div 2 < 2 ^ bitlen (n div 2)" by simp
    then have "n < 2 * 2 ^ bitlen (n div 2)" by linarith
    with False show ?thesis by (subst bitlen.simps) simp
  qed
qed

lemma round_nat_le: "round_nat p a \<le> 2 ^ bitlen a"
proof (cases "bitlen a \<le> p")
  case True
  with bitlen_gt [of a] show ?thesis by (simp add: round_nat_def)
next
  case False
  define s where "s = bitlen a - p"
  from False have n: "bitlen a = p + s" by (simp add: s_def)
  from bitlen_gt [of a] have "a < 2 ^ p * 2 ^ s" by (simp add: n power_add)
  then have "a div 2 ^ s < 2 ^ p" by (simp add: less_mult_imp_div_less)
  then have "a div 2 ^ s + 1 \<le> 2 ^ p" by simp
  then have 1: "(a div 2 ^ s + 1) * 2 ^ s \<le> 2 ^ p * 2 ^ s" by (rule mult_le_mono1)
  have "a div 2 ^ s * 2 ^ s \<le> (a div 2 ^ s + 1) * 2 ^ s" by simp
  with 1 have 2: "a div 2 ^ s * 2 ^ s \<le> 2 ^ p * 2 ^ s" by linarith
  have b: "(2::nat) ^ bitlen a = 2 ^ p * 2 ^ s" by (simp add: n power_add)
  show ?thesis
  proof (cases "2 ^ (s - 1) < a mod 2 ^ s \<or> (a mod 2 ^ s = 2 ^ (s - 1) \<and> odd (a div 2 ^ s))")
    case True
    with False have "round_nat p a = (a div 2 ^ s + 1) * 2 ^ s"
      unfolding round_nat_def Let_def s_def [symmetric] by simp
    with 1 b show ?thesis by simp
  next
    case c: False
    with False have "round_nat p a = a div 2 ^ s * 2 ^ s"
      unfolding round_nat_def Let_def s_def [symmetric] by simp
    with 2 b show ?thesis by simp
  qed
qed

lemma round_nat_int64:
  assumes "0 < p" and "a \<le> 2 ^ 63"
  shows "round_nat p a \<le> 2 ^ 63"
proof (cases "a = 2 ^ 63")
  case True
  from assms(1) have "(2::nat) ^ 0 < 2 ^ p" by (intro power_strict_increasing) simp_all
  then have "(1::nat) < 2 ^ p" by simp
  with True have "round_nat p a = a" by (intro round_nat_exact [of _ 1 63]) simp_all
  with True show ?thesis by simp
next
  case False
  with assms(2) have "a < 2 ^ 63" by simp
  then have "bitlen a \<le> 63" by (rule bitlen_le)
  then have "(2::nat) ^ bitlen a \<le> 2 ^ 63" by (rule power_increasing) simp
  with round_nat_le [of p a] show ?thesis by linarith
qed

lemma sint_int64_bound: "\<bar>sint (w :: int64)\<bar> \<le> 2 ^ 63"
  using sint_range_size [of w] by (auto simp: word_size)

lemma float_of_int64_bound:
  assumes "0 < p"
  shows "\<exists>k. float_of_int64 p w = Finite k 0 \<and> \<bar>k\<bar> \<le> 2 ^ 63"
proof -
  have "nat \<bar>sint w\<bar> \<le> 2 ^ 63" using sint_int64_bound [of w] by (simp add: nat_le_iff)
  from round_nat_int64 [OF assms this]
  have "int (round_nat p (nat \<bar>sint w\<bar>)) \<le> 2 ^ 63"
    by (metis of_nat_le_iff of_nat_numeral of_nat_power)
  then have "\<bar>sgn (sint w) * int (round_nat p (nat \<bar>sint w\<bar>))\<bar> \<le> 2 ^ 63"
    by (simp add: abs_mult abs_sgn_eq)
  then show ?thesis by (simp add: float_of_int64_def)
qed

subsection \<open>Success and failure of a conversion\<close>

lemma codec_outcome:
  "(if convertible v then \<exists>w. value2Nvalue u v = (w, None)
    else \<exists>m. value2Nvalue u v = (VEmpty, Some (Errorf m)))"
  "(if convertible_list xs
    then \<exists>ws. slice2Nlist_loop u sv xs = (Some (sv @ ws), None) \<and> length ws = length xs
    else \<exists>m. slice2Nlist_loop u sv xs = (None, Some (Errorf m)))"
  "(if convertible_map kvs
    then \<exists>ws. parseParams_loop u pm kvs = (Some (pm @ ws), None) \<and> map fst ws = map fst kvs
    else \<exists>m. parseParams_loop u pm kvs = (None, Some (Errorf m)))"
proof (induction v and xs and kvs arbitrary: and sv and pm
    rule: convertible_convertible_list_convertible_map.induct)
  case (1 v)
  from "1.IH" [of "[]"] show ?case by (auto split: if_splits)
next
  case (2 v)
  from "2.IH" [of "[]"] show ?case by (auto split: if_splits)
next
  case (6 item list)
  show ?case
  proof (cases "convertible item")
    case True
    with "6.IH"(1) obtain w where w: "value2Nvalue u item = (w, None)" by auto
    show ?thesis
    proof (cases "convertible_list list")
      case True
      with "6.IH"(2) [of "sv @ [w]"] obtain ws
        where "slice2Nlist_loop u (sv @ [w]) list = (Some ((sv @ [w]) @ ws), None)"
          and "length ws = length list" by auto
      with w \<open>convertible item\<close> True show ?thesis by simp
    next
      case False
      with "6.IH"(2) [of "sv @ [w]"] w show ?thesis by auto
    qed
  next
    case False
    with "6.IH"(1) show ?thesis by auto
  qed
next
  case (8 k v params)
  show ?case
  proof (cases "convertible v")
    case True
    with "8.IH"(1) obtain w where w: "value2Nvalue u v = (w, None)" by auto
    show ?thesis
    proof (cases "convertible_map params")
      case True
      with "8.IH"(2) [of "pm @ [(k, w)]"] obtain ws
        where "parseParams_loop u (pm @ [(k, w)]) params = (Some ((pm @ [(k, w)]) @ ws), None)"
          and "map fst ws = map fst params" by auto
      with w \<open>convertible v\<close> True show ?thesis by simp
    next
      case False
      with "8.IH"(2) [of "pm @ [(k, w)]"] w show ?thesis by auto
    qed
  next
    case False
    with "8.IH"(1) show ?thesis by auto
  qed
qed simp_all

lemma slice_first_failure:
  assumes "\<forall>y \<in> set pre. snd (value2Nvalue u y) = None"
    and "snd (value2Nvalue u x) = Some er"
  shows "slice2Nlist_loop u sv (pre @ x # post) = (None, Some er)"
  using assms
proof (induction pre arbitrary: sv)
  case Nil
  then show ?case by (cases "value2Nvalue u x") simp
next
  case (Cons y pre)
  from Cons.prems(1) have "snd (value2Nvalue u y) = None" by simp
  then obtain w where "value2Nvalue u y = (w, None)" by (cases "value2Nvalue u y") simp
  moreover from Cons.prems have "slice2Nlist_loop u (sv @ [w]) (pre @ x # post) = (None, Some er)"
    by (intro Cons.IH) simp_all
  ultimately show ?case by simp
qed

lemma params_first_failure:
  assumes "\<forall>y \<in> set pre. snd (value2Nvalue u (snd y)) = None"
    and "snd (value2Nvalue u x) = Some er"
  shows "parseParams_loop u pm (pre @ (k, x) # post) = (None, Some er)"
  using assms
proof (induction pre arbitrary: pm)
  case Nil
  then show ?case by (cases "value2Nvalue u x") simp
next
  case (Cons y pre)
  obtain k' v' where y: "y = (k', v')" by (cases y)
  from Cons.prems(1) have "snd (value2Nvalue u v') = None" by (simp add: y)
  then obtain w where "value2Nvalue u v' = (w, None)" by (cases "value2Nvalue u v'") simp
  moreover from Cons.prems
  have "parseParams_loop u (pm @ [(k', w)]) (pre @ (k, x) # post) = (None, Some er)"
    by (intro Cons.IH) simp_all
  ultimately show ?case by (simp add: y)
qed

subsection \<open>Unsupported types\<close>

text \<open>
  Claim C7. A host value of a dynamic type outside the supported set is answered by an
  error whose message ends with the name of that type, and the value returned with it has
  no field set. In a slice, and in a map visited in the order of its \<^verbatim>\<open>range\<close> loop, the
  first element whose conversion fails ends the conversion: the error is the error of that
  element whatever follows it, \<^verbatim>\<open>slice2Nlist\<close> and \<^verbatim>\<open>map2Nmap\<close> return no list and
  no map, and the value \<^verbatim>\<open>value2Nvalue\<close> returns has neither \<^verbatim>\<open>LVal\<close> nor
  \<^verbatim>\<open>MVal\<close> set.
\<close>

theorem unsupported_type_conversion_error:
  "value2Nvalue u (HOther t) =
     (VEmpty, Some (Errorf
        (''Only support convert boolean/float/int/string/map/list to nebula.Value but '' @ t)))
   \<and> ((\<forall>y \<in> set pre. snd (value2Nvalue u y) = None) \<and> snd (value2Nvalue u x) = Some er
        \<longrightarrow> slice2Nlist u (pre @ x # post) = (None, Some er)
          \<and> value2Nvalue u (HSlice (pre @ x # post)) = (VEmpty, Some er))
   \<and> ((\<forall>y \<in> set kpre. snd (value2Nvalue u (snd y)) = None) \<and> snd (value2Nvalue u x) = Some er
        \<longrightarrow> map2Nmap u (kpre @ (k, x) # kpost) = (None, Some er)
          \<and> value2Nvalue u (HMap (kpre @ (k, x) # kpost)) = (VEmpty, Some er))"
  by (simp add: slice_first_failure params_first_failure)

theorem unsupported_type_conversion_error_witness:
  "snd (value2Nvalue unrep_amd64 (HInt 1)) = None
   \<and> snd (value2Nvalue unrep_amd64 (HString ''a'')) = None
   \<and> snd (value2Nvalue unrep_amd64 (HOther ''main.Point'')) =
       Some (Errorf ''Only support convert boolean/float/int/string/map/list to nebula.Value but main.Point'')
   \<and> snd (value2Nvalue unrep_amd64 (HBool True)) = None
   \<and> value2Nvalue unrep_amd64 (HSlice [HInt 1, HString ''a'', HOther ''main.Point'', HOther ''int64'']) =
       (VEmpty, Some (Errorf ''Only support convert boolean/float/int/string/map/list to nebula.Value but main.Point''))
   \<and> value2Nvalue unrep_amd64 (HMap [(''a'', HBool True), (''b'', HOther ''main.Point''), (''c'', HInt 2)]) =
       (VEmpty, Some (Errorf ''Only support convert boolean/float/int/string/map/list to nebula.Value but main.Point''))"
  using unsupported_type_conversion_error [of unrep_amd64 "''main.Point''"
      "[HInt 1, HString ''a'']" "HOther ''main.Point''"
      "Errorf ''Only support convert boolean/float/int/string/map/list to nebula.Value but main.Point''"
      "[HOther ''int64'']" "[(''a'', HBool True)]" "''b''" "[(''c'', HInt 2)]"]
  by simp

subsection \<open>Totality and pass-through\<close>

lemma slice_loop_values:
  "convertible_list xs \<Longrightarrow>
     slice2Nlist_loop u sv xs = (Some (sv @ map (\<lambda>x. fst (value2Nvalue u x)) xs), None)"
proof (induction xs arbitrary: sv)
  case Nil
  show ?case by simp
next
  case (Cons x xs)
  from Cons.prems have c: "convertible x" "convertible_list xs" by simp_all
  from codec_outcome(1) [of x u] c(1) obtain w where w: "value2Nvalue u x = (w, None)" by auto
  from Cons.IH [OF c(2), of "sv @ [w]"] w show ?case by simp
qed

lemma params_loop_values:
  "convertible_map kvs \<Longrightarrow>
     parseParams_loop u pm kvs =
       (Some (pm @ map (\<lambda>(k, v). (k, fst (value2Nvalue u v))) kvs), None)"
proof (induction kvs arbitrary: pm)
  case Nil
  show ?case by simp
next
  case (Cons kv kvs)
  obtain k v where kv: "kv = (k, v)" by (cases kv)
  from Cons.prems have c: "convertible v" "convertible_map kvs" by (simp_all add: kv)
  from codec_outcome(1) [of v u] c(1) obtain w where w: "value2Nvalue u v = (w, None)" by auto
  from Cons.IH [OF c(2), of "pm @ [(k, w)]"] w show ?case by (simp add: kv)
qed

text \<open>
  Claim C8, amended. On host values that are finite trees the conversion is a total
  function: on a convertible value it returns a wire value and no error, on any other
  value it returns an error made by \<^verbatim>\<open>fmt.Errorf\<close> and a value with no field set, and it
  has no other outcome; the same holds of a map of parameters, which is converted entry by
  entry, in order, under the same keys. The wire value is the one that holds the host
  value: a boolean, an integer, a string, the null, a float as the integer or the double
  variant, a slice as the list of its converted elements, a map as the map of its converted
  entries. A \<^verbatim>\<open>nebula.Value\<close> handed over by value is passed through unchanged, and a
  date, date-time, duration, time or geography becomes the wire variant that holds it.
  What a conversion returns is a pointer, \<^verbatim>\<open>*nebula.Value\<close>; handed to the conversion
  again it is not passed through: the answer is the error that names the type
  \<^verbatim>\<open>*nebula.Value\<close>.
\<close>

theorem codec_total_and_passthrough:
  "(convertible v \<longrightarrow> (\<exists>w. value2Nvalue u v = (w, None)))
   \<and> (\<not> convertible v \<longrightarrow> (\<exists>m. value2Nvalue u v = (VEmpty, Some (Errorf m))))
   \<and> (convertible_map params \<longrightarrow>
        parseParams u params =
          (Some (map (\<lambda>(k, v). (k, fst (value2Nvalue u v))) params), None))
   \<and> (\<not> convertible_map params \<longrightarrow> (\<exists>m. parseParams u params = (None, Some (Errorf m))))
   \<and> value2Nvalue u (HBool b) = (BVal b, None)
   \<and> value2Nvalue u (HInt i) = (IVal i, None)
   \<and> (value2Nvalue u (HFloat64 x) = (IVal (int64_of_float u x), None)
        \<or> value2Nvalue u (HFloat64 x) = (FVal x, None))
   \<and> (value2Nvalue u (HFloat32 y) = (IVal (int64_of_float u y), None)
        \<or> value2Nvalue u (HFloat32 y) = (FVal y, None))
   \<and> value2Nvalue u (HString str) = (SVal str, None)
   \<and> value2Nvalue u HNil = (NVal NullType_NULL, None)
   \<and> (convertible_list xs \<longrightarrow>
        value2Nvalue u (HSlice xs) = (LVal (map (\<lambda>x. fst (value2Nvalue u x)) xs), None))
   \<and> (convertible_map kvs \<longrightarrow>
        value2Nvalue u (HMap kvs) =
          (MVal (map (\<lambda>(k, v). (k, fst (value2Nvalue u v))) kvs), None))
   \<and> value2Nvalue u (HValue w) = (w, None)
   \<and> value2Nvalue u (HDate d) = (DVal d, None)
   \<and> value2Nvalue u (HDateTime dt) = (DtVal dt, None)
   \<and> value2Nvalue u (HDuration du) = (DuVal du, None)
   \<and> value2Nvalue u (HTime tm) = (TVal tm, None)
   \<and> value2Nvalue u (HGeography g) = (GgVal g, None)
   \<and> value2Nvalue u (ptr_Value w) =
        (VEmpty, Some (Errorf
           ''Only support convert boolean/float/int/string/map/list to nebula.Value but *nebula.Value''))"
proof -
  have 1: "convertible v \<longrightarrow> (\<exists>w. value2Nvalue u v = (w, None))"
    and 2: "\<not> convertible v \<longrightarrow> (\<exists>m. value2Nvalue u v = (VEmpty, Some (Errorf m)))"
    using codec_outcome(1) [of v u] by (simp_all split: if_splits)
  have 3: "convertible_map params \<longrightarrow>
        parseParams u params =
          (Some (map (\<lambda>(k, v). (k, fst (value2Nvalue u v))) params), None)"
    using params_loop_values [of params u "[]"] by simp
  have 4: "\<not> convertible_map params \<longrightarrow> (\<exists>m. parseParams u params = (None, Some (Errorf m)))"
    using codec_outcome(3) [of params u "[]"] by (simp split: if_splits)
  have 5: "convertible_list xs \<longrightarrow>
        value2Nvalue u (HSlice xs) = (LVal (map (\<lambda>x. fst (value2Nvalue u x)) xs), None)"
    using slice_loop_values [of xs u "[]"] by simp
  have 6: "convertible_map kvs \<longrightarrow>
        value2Nvalue u (HMap kvs) =
          (MVal (map (\<lambda>(k, v). (k, fst (value2Nvalue u v))) kvs), None)"
    using params_loop_values [of kvs u "[]"] by simp
  from 1 2 3 4 5 6 show ?thesis by (simp add: ptr_Value_def)
qed

theorem codec_total_and_passthrough_witness:
  "convertible (HMap [(''n'', HInt 5), (''w'', HValue (SVal ''x''))])
   \<and> (\<exists>w. value2Nvalue unrep_amd64 (HMap [(''n'', HInt 5), (''w'', HValue (SVal ''x''))]) = (w, None))
   \<and> convertible_list [HInt 1, HMap [(''k'', HNil)]]
   \<and> value2Nvalue unrep_amd64 (HSlice [HInt 1, HMap [(''k'', HNil)]]) =
      (LVal [IVal 1, MVal [(''k'', NVal NullType_NULL)]], None)
   \<and> convertible_map [(''n'', HInt 5), (''xs'', HSlice [HString ''a''])]
   \<and> parseParams unrep_amd64 [(''n'', HInt 5), (''xs'', HSlice [HString ''a''])] =
      (Some [(''n'', IVal 5), (''xs'', LVal [SVal ''a''])], None)
   \<and> convertible_map [(''b'', HBool True), (''w'', HValue (SVal ''x''))]
   \<and> value2Nvalue unrep_amd64 (HMap [(''b'', HBool True), (''w'', HValue (SVal ''x''))]) =
      (MVal [(''b'', BVal True), (''w'', SVal ''x'')], None)
   \<and> \<not> convertible (HSlice [HInt 1, HOther ''int64''])
   \<and> (\<exists>m. value2Nvalue unrep_amd64 (HSlice [HInt 1, HOther ''int64'']) = (VEmpty, Some (Errorf m)))
   \<and> \<not> convertible_map [(''n'', HMap [(''c'', HOther ''chan int'')])]
   \<and> (\<exists>m. parseParams unrep_amd64 [(''n'', HMap [(''c'', HOther ''chan int'')])] =
          (None, Some (Errorf m)))"
  using codec_total_and_passthrough [where u = unrep_amd64
      and v = "HSlice [HInt 1, HOther ''int64'']"
      and params = "[(''n'', HInt 5), (''xs'', HSlice [HString ''a''])]"
      and xs = "[HInt 1, HMap [(''k'', HNil)]]"
      and kvs = "[(''b'', HBool True), (''w'', HValue (SVal ''x''))]"]
    codec_total_and_passthrough [where u = unrep_amd64
      and v = "HMap [(''n'', HInt 5), (''w'', HValue (SVal ''x''))]"
      and params = "[(''n'', HMap [(''c'', HOther ''chan int'')])]"]
  by simp

text \<open>
  The claim C8 as stated, that converting a wire value again passes it through unchanged,
  fails on what the conversion itself returns. The conversion of the \<^verbatim>\<open>int\<close> 5 returns a
  pointer to the wire value \<open>IVal 5\<close>; handed to the conversion again, alone or as the
  element of a slice, that pointer is a value of the unsupported type \<^verbatim>\<open>*nebula.Value\<close>
  and is answered by an error and a value with no field set.
\<close>

theorem reconverted_result_counterexample:
  "value2Nvalue unrep_amd64 (HInt 5) = (IVal 5, None)
   \<and> value2Nvalue unrep_amd64 (ptr_Value (fst (value2Nvalue unrep_amd64 (HInt 5)))) =
       (VEmpty, Some (Errorf
          ''Only support convert boolean/float/int/string/map/list to nebula.Value but *nebula.Value''))
   \<and> value2Nvalue unrep_amd64 (HSlice [ptr_Value (fst (value2Nvalue unrep_amd64 (HInt 5)))]) =
       (VEmpty, Some (Errorf
          ''Only support convert boolean/float/int/string/map/list to nebula.Value but *nebula.Value''))"
  by (simp add: ptr_Value_def)

subsection \<open>Floats with and without a fraction\<close>

text \<open>
  Claim C6, amended. A \<^verbatim>\<open>float64\<close> or \<^verbatim>\<open>float32\<close> whose fractional part is zero and
  whose value lies in the range of \<^verbatim>\<open>int64\<close> is converted to the integer variant
  holding that value; one whose fractional part is not zero is converted to the double
  variant holding the same number. (A float with zero fractional part beyond the range of
  \<^verbatim>\<open>int64\<close> is not covered: see the counterexample below.)
\<close>

theorem integral_float_collapse_in_int64_range:
  "(is_float64 (Finite m e) \<and> frac (valof m e) = 0
      \<and> - (2 ^ 63) \<le> \<lfloor>valof m e\<rfloor> \<and> \<lfloor>valof m e\<rfloor> < 2 ^ 63
     \<longrightarrow> value2Nvalue u (HFloat64 (Finite m e)) = (IVal (word_of_int \<lfloor>valof m e\<rfloor>), None))
   \<and> (is_float32 (Finite m e) \<and> frac (valof m e) = 0
      \<and> - (2 ^ 63) \<le> \<lfloor>valof m e\<rfloor> \<and> \<lfloor>valof m e\<rfloor> < 2 ^ 63
     \<longrightarrow> value2Nvalue u (HFloat32 (Finite m e)) = (IVal (word_of_int \<lfloor>valof m e\<rfloor>), None))
   \<and> (frac (valof m e) \<noteq> 0
     \<longrightarrow> value2Nvalue u (HFloat64 (Finite m e)) = (FVal (Finite m e), None)
       \<and> value2Nvalue u (HFloat32 (Finite m e)) = (FVal (Finite m e), None))"
proof (intro conjI impI)
  assume a: "is_float64 (Finite m e) \<and> frac (valof m e) = 0
      \<and> - (2 ^ 63) \<le> \<lfloor>valof m e\<rfloor> \<and> \<lfloor>valof m e\<rfloor> < 2 ^ 63"
  define n where "n = \<lfloor>valof m e\<rfloor>"
  from a have v: "valof m e = of_int n" by (simp add: n_def frac_def)
  from a have r: "- (2 ^ 63) \<le> n" "n < 2 ^ 63" by (simp_all add: n_def)
  from a have "\<bar>m\<bar> < 2 ^ 53" by simp
  from float_of_int64_exact [OF v this r] int64_of_float_int [OF v r, of u] v
  show "value2Nvalue u (HFloat64 (Finite m e)) = (IVal (word_of_int \<lfloor>valof m e\<rfloor>), None)"
    by (simp add: n_def [symmetric] float_eq_int del: int64_of_float.simps float_eq.simps)
next
  assume a: "is_float32 (Finite m e) \<and> frac (valof m e) = 0
      \<and> - (2 ^ 63) \<le> \<lfloor>valof m e\<rfloor> \<and> \<lfloor>valof m e\<rfloor> < 2 ^ 63"
  define n where "n = \<lfloor>valof m e\<rfloor>"
  from a have v: "valof m e = of_int n" by (simp add: n_def frac_def)
  from a have r: "- (2 ^ 63) \<le> n" "n < 2 ^ 63" by (simp_all add: n_def)
  from a have "\<bar>m\<bar> < 2 ^ 24" by simp
  from float_of_int64_exact [OF v this r] int64_of_float_int [OF v r, of u] v
  show "value2Nvalue u (HFloat32 (Finite m e)) = (IVal (word_of_int \<lfloor>valof m e\<rfloor>), None)"
    by (simp add: n_def [symmetric] float_eq_int del: int64_of_float.simps float_eq.simps)
next
  assume a: "frac (valof m e) \<noteq> 0"
  have ne: "valof m e \<noteq> of_int k" for k
    using a by auto
  have nf: "\<not> float_eq (Finite m e) (float_of_int64 p w)" for p w
    unfolding float_of_int64_def float_eq_int by (rule ne)
  show "value2Nvalue u (HFloat64 (Finite m e)) = (FVal (Finite m e), None)"
    by (simp add: nf del: int64_of_float.simps float_eq.simps)
  show "value2Nvalue u (HFloat32 (Finite m e)) = (FVal (Finite m e), None)"
    by (simp add: nf del: int64_of_float.simps float_eq.simps)
qed

lemma valof_5: "valof 5 0 = 5" by (simp add: valof_def)
lemma valof_5_2: "valof 5 (- 1) = 5 / 2" by (simp add: valof_def)

theorem integral_float_collapse_in_int64_range_witness:
  "is_float64 (Finite 5 0) \<and> is_float32 (Finite 5 0) \<and> frac (valof 5 0) = 0
   \<and> - (2 ^ 63) \<le> \<lfloor>valof 5 0\<rfloor> \<and> \<lfloor>valof 5 0\<rfloor> < 2 ^ 63
   \<and> value2Nvalue unrep_amd64 (HFloat64 (Finite 5 0)) = (IVal 5, None)
   \<and> value2Nvalue unrep_amd64 (HFloat32 (Finite 5 0)) = (IVal 5, None)
   \<and> frac (valof 5 (- 1)) \<noteq> 0
   \<and> value2Nvalue unrep_amd64 (HFloat64 (Finite 5 (- 1))) = (FVal (Finite 5 (- 1)), None)
   \<and> value2Nvalue unrep_amd64 (HFloat32 (Finite 5 (- 1))) = (FVal (Finite 5 (- 1)), None)"
proof -
  have f: "frac (5 / 2 :: rat) \<noteq> 0"
    by (simp add: frac_def floor_divide_of_int_eq [of 5 2, simplified] )
  show ?thesis
  using integral_float_collapse_in_int64_range [of 5 0 unrep_amd64]
    integral_float_collapse_in_int64_range [of 5 "- 1" unrep_amd64] f
  by (simp add: valof_5 valof_5_2 del: value2Nvalue.simps)
qed

text \<open>
  The claim C6 as stated, for every float with zero fractional part, fails at \<open>2 ^ 64\<close>:
  \<^verbatim>\<open>int64(v)\<close> cannot hold it, so whatever the implementation yields for it, the
  comparison \<^verbatim>\<open>v == float64(int64(v))\<close> is false and the value stays a double.
\<close>

theorem integral_float_beyond_int64_counterexample:
  "is_float64 (Finite 1 64) \<and> frac (valof 1 64) = 0
   \<and> (\<forall>u. value2Nvalue u (HFloat64 (Finite 1 64)) = (FVal (Finite 1 64), None))"
proof -
  have "\<not> float_eq (Finite 1 64) (float_of_int64 53 w)" for w
  proof -
    from float_of_int64_bound [of 53 w] obtain k
      where k: "float_of_int64 53 w = Finite k 0" "\<bar>k\<bar> \<le> 2 ^ 63" by auto
    then have "k \<noteq> 2 ^ 64" by auto
    with k(1) show ?thesis by (simp add: float_eq_int valof_def del: float_eq.simps)
  qed
  then show ?thesis
    by (simp add: valof_def del: int64_of_float.simps float_eq.simps)
qed

section \<open>The retry loop\<close>

lemma retryable_err: "retryable (rsp, err) \<Longrightarrow> \<exists>e. err = Some e"
  by (cases err) (auto simp: retryable_def IsQueryOk_def)

lemma execFunc_loop_stop:
  assumes "executeWithParameter_result env (tr @ [Ev_executeWithParameter c sid stmt pm]) = (rsp, err)"
    and "\<not> retryable (rsp, err)"
  shows "execFunc_loop env cfg c sid stmt pm k tr =
    Some ((rsp, err), tr @ [Ev_executeWithParameter c sid stmt pm])"
  using assms by (subst execFunc_loop.simps) (auto simp: retryable_def Let_def)

lemma execFunc_loop_last:
  assumes "executeWithParameter_result env (tr @ [Ev_executeWithParameter c sid stmt pm]) = (rsp, err)"
    and "0 < RetryConfig.MaxTime cfg" and "RetryConfig.MaxTime cfg \<le> k + 1"
  shows "execFunc_loop env cfg c sid stmt pm k tr =
    Some ((rsp, err), tr @ [Ev_executeWithParameter c sid stmt pm])"
  using assms by (subst execFunc_loop.simps) (simp add: Let_def)

lemma execFunc_loop_again:
  assumes "executeWithParameter_result env (tr @ [Ev_executeWithParameter c sid stmt pm]) = (rsp, err)"
    and "retryable (rsp, err)"
    and "RetryConfig.MaxTime cfg \<le> 0 \<or> k + 1 < RetryConfig.MaxTime cfg"
  shows "execFunc_loop env cfg c sid stmt pm k tr =
    execFunc_loop env cfg c sid stmt pm (if 0 < RetryConfig.MaxTime cfg then k + 1 else k)
      (tr @ [Ev_executeWithParameter c sid stmt pm, Ev_log LogError,
             Ev_Sleep (RetryConfig.IdleTime cfg)])"
  using assms by (subst execFunc_loop.simps) (auto simp: retryable_def Let_def)

lemma execFunc_loop_retry_each:
  "\<forall>i \<le> n. retryable (executeWithParameter_result env
       (tr @ retry_rounds (Ev_executeWithParameter c sid stmt pm) (RetryConfig.IdleTime cfg) i
          @ [Ev_executeWithParameter c sid stmt pm])) \<Longrightarrow>
   k + int n + 1 = RetryConfig.MaxTime cfg \<Longrightarrow> 0 \<le> k \<Longrightarrow>
    execFunc_loop env cfg c sid stmt pm k tr =
      Some (executeWithParameter_result env
              (tr @ retry_rounds (Ev_executeWithParameter c sid stmt pm) (RetryConfig.IdleTime cfg) n
                  @ [Ev_executeWithParameter c sid stmt pm]),
            tr @ retry_rounds (Ev_executeWithParameter c sid stmt pm) (RetryConfig.IdleTime cfg) n
               @ [Ev_executeWithParameter c sid stmt pm])"
proof (induction n arbitrary: k tr)
  case 0
  obtain rsp err where o: "executeWithParameter_result env (tr @ [Ev_executeWithParameter c sid stmt pm]) = (rsp, err)"
    by (cases "executeWithParameter_result env (tr @ [Ev_executeWithParameter c sid stmt pm])")
  from 0 have "0 < RetryConfig.MaxTime cfg" "RetryConfig.MaxTime cfg \<le> k + 1" by simp_all
  from execFunc_loop_last [OF o this] o show ?case by (simp add: retry_rounds_def)
next
  case (Suc n)
  let ?ev = "Ev_executeWithParameter c sid stmt pm"
  let ?idle = "RetryConfig.IdleTime cfg"
  obtain rsp err where o: "executeWithParameter_result env (tr @ [?ev]) = (rsp, err)"
    by (cases "executeWithParameter_result env (tr @ [?ev])")
  from Suc.prems(1) have "retryable (executeWithParameter_result env (tr @ retry_rounds ?ev ?idle 0 @ [?ev]))"
    by blast
  with o have r: "retryable (rsp, err)" by (simp add: retry_rounds_def)
  from Suc.prems have lt: "RetryConfig.MaxTime cfg \<le> 0 \<or> k + 1 < RetryConfig.MaxTime cfg"
    and pos: "0 < RetryConfig.MaxTime cfg" by simp_all
  have each: "\<forall>i \<le> n. retryable (executeWithParameter_result env
       ((tr @ [?ev, Ev_log LogError, Ev_Sleep ?idle]) @ retry_rounds ?ev ?idle i @ [?ev]))"
  proof (intro allI impI)
    fix i assume "i \<le> n"
    then have "Suc i \<le> Suc n" by simp
    with Suc.prems(1) have "retryable (executeWithParameter_result env
       (tr @ retry_rounds ?ev ?idle (Suc i) @ [?ev]))" by blast
    then show "retryable (executeWithParameter_result env
       ((tr @ [?ev, Ev_log LogError, Ev_Sleep ?idle]) @ retry_rounds ?ev ?idle i @ [?ev]))"
      by (simp add: retry_rounds_def)
  qed
  from Suc.prems have "(k + 1) + int n + 1 = RetryConfig.MaxTime cfg" "0 \<le> k + 1" by simp_all
  from Suc.IH [OF each this] execFunc_loop_again [OF o r lt] pos
  show ?case by (simp add: retry_rounds_def)
qed

lemma count_retry_rounds:
  "length (filter (\<lambda>x. x = Ev_executeWithParameter c sid stmt pm)
     (retry_rounds (Ev_executeWithParameter c sid stmt pm) idle n)) = n"
  by (induction n) (simp_all add: retry_rounds_def)

lemmas ex_defs = ex_session_def ex_env_def ex_ok_def ex_json_ok_def ex_idle_fails_def
  ex_idle_ok_def ex_exec_boom_def ex_env_boom_def ex_syntax_error_def ex_exec_syntax_error_def
  ex_env_syntax_error_def ex_exec_eof_once_def ex_json_eof_def ex_env_eof_once_def
  ex_json_session_invalid_def ex_env_json_session_invalid_def ex_exec_flaky_def
  ex_env_flaky_def ex_env_down_def ex_session_invalid_def ex_exec_invalid_once_def
  ex_env_invalid_once_def ex_session_timed_def ex_session_unbounded_def
  ex_session_standalone_def

lemmas run_defs = ExecuteWithParameter_def ExecuteJsonWithParameter_def
  executeWithReconnect_def execFunc_def execFuncJson_def execFunc_loop.simps
  execFuncJson_loop.simps reconnectWithExecuteErr_def reconnect_loop.simps reConnect_def
  IsQueryOk_def Let_def

lemma execFunc_err:
  "connection s = Some c \<Longrightarrow>
   execFunc_loop env (retryCfg s) c (sessionID s) stmt pm 0 tr = Some ((rsp, Some e), tr1) \<Longrightarrow>
   execFunc env stmt pm s tr = Some (Ret ((INil, Some e), tr1))"
  by (simp add: execFunc_def)

lemma execFunc_ok:
  "connection s = Some c \<Longrightarrow>
   execFunc_loop env (retryCfg s) c (sessionID s) stmt pm 0 tr = Some ((rsp, None), tr1) \<Longrightarrow>
   genResultSet env rsp (timezoneInfo s) = Inr rs \<Longrightarrow>
   execFunc env stmt pm s tr = Some (Ret ((IResultSet rs, None), tr1))"
  by (simp add: execFunc_def)

lemma executeWithReconnect_verbatim:
  "f s tr = Some (Ret ((INil, Some e), tr1)) \<Longrightarrow> \<not> is_TransportException (Some e) \<Longrightarrow>
   executeWithReconnect env f s tr = Some (Ret ((INil, Some e), s, tr1))"
  by (simp add: executeWithReconnect_def reconnectWithExecuteErr_def)

lemma executeWithReconnect_ok:
  "f s tr = Some (Ret ((IResultSet rs, None), tr1)) \<Longrightarrow> \<not> IsServerSessionError (resp rs) \<Longrightarrow>
   executeWithReconnect env f s tr = Some (Ret ((IResultSet rs, None), s, tr1))"
  by (simp add: executeWithReconnect_def IsQueryOk_def)

text \<open>
  Claim C1. With a retry bound \<open>N > 0\<close>, when each of the \<open>N\<close> attempts ends in a
  retryable outcome (an error that is not a transport exception, with a response that is
  not session-invalid or session-timeout: the outcomes after which the loop goes round,
  whatever else they are), the loop of \<^verbatim>\<open>execFunc\<close> calls the transport exactly \<open>N\<close>
  times, logging and sleeping between two calls, and \<^verbatim>\<open>execFunc\<close> returns the error of
  the \<open>N\<close>-th call.
\<close>

theorem retry_bound_attempts:
  assumes "RetryConfig.MaxTime (retryCfg s) = N" and "0 < N" and "connection s = Some c"
    and "ev = Ev_executeWithParameter c (sessionID s) stmt pm"
    and "idle = RetryConfig.IdleTime (retryCfg s)"
    and "\<forall>i < nat N. retryable (executeWithParameter_result env (tr @ retry_rounds ev idle i @ [ev]))"
    and "tr' = tr @ retry_rounds ev idle (nat N - 1) @ [ev]"
  shows "\<exists>rsp e. executeWithParameter_result env tr' = (rsp, Some e)
      \<and> execFunc_loop env (retryCfg s) c (sessionID s) stmt pm 0 tr = Some ((rsp, Some e), tr')
      \<and> execFunc env stmt pm s tr = Some (Ret ((INil, Some e), tr'))
      \<and> length (filter (\<lambda>x. x = ev) tr') = length (filter (\<lambda>x. x = ev) tr) + nat N"
proof -
  obtain rsp err where o: "executeWithParameter_result env tr' = (rsp, err)"
    by (cases "executeWithParameter_result env tr'")
  from assms(2,6) have "retryable (executeWithParameter_result env tr')"
    unfolding assms(7) by simp
  with o have "retryable (rsp, err)" by simp
  then obtain e where e: "err = Some e" using retryable_err by blast
  from assms(6) have each: "\<forall>i \<le> nat N - 1. retryable (executeWithParameter_result env
      (tr @ retry_rounds (Ev_executeWithParameter c (sessionID s) stmt pm)
             (RetryConfig.IdleTime (retryCfg s)) i
          @ [Ev_executeWithParameter c (sessionID s) stmt pm]))"
    using assms(2) unfolding assms(4,5) by auto
  from assms(1,2) have "0 + int (nat N - 1) + 1 = RetryConfig.MaxTime (retryCfg s)" by simp
  from execFunc_loop_retry_each [OF each this] o e assms(4,5,7)
  have l: "execFunc_loop env (retryCfg s) c (sessionID s) stmt pm 0 tr = Some ((rsp, Some e), tr')"
    by simp
  have "length (filter (\<lambda>x. x = ev) tr') = length (filter (\<lambda>x. x = ev) tr) + nat N"
    using assms(2) by (simp add: assms(4,7) count_retry_rounds)
  with o e l execFunc_err [OF assms(3) l] show ?thesis by simp
qed

theorem retry_bound_attempts_witness:
  "RetryConfig.MaxTime (retryCfg ex_session) = 2 \<and> (0::int) < 2
   \<and> connection ex_session = Some (Conn 1)
   \<and> retryable (executeWithParameter_result ex_env_boom
        [Ev_executeWithParameter (Conn 1) 7 ''RETURN 1'' []])
   \<and> retryable (executeWithParameter_result ex_env_boom
        [Ev_executeWithParameter (Conn 1) 7 ''RETURN 1'' [], Ev_log LogError, Ev_Sleep 3,
         Ev_executeWithParameter (Conn 1) 7 ''RETURN 1'' []])
   \<and> execFunc ex_env_boom ''RETURN 1'' [] ex_session [] =
       Some (Ret ((INil, Some (Errorf ''boom'')),
         [Ev_executeWithParameter (Conn 1) 7 ''RETURN 1'' [], Ev_log LogError, Ev_Sleep 3,
          Ev_executeWithParameter (Conn 1) 7 ''RETURN 1'' []]))"
proof -
  have h: "retryable (executeWithParameter_result ex_env_boom h)" for h
    by (simp add: ex_defs retryable_def IsQueryOk_def)
  have n: "RetryConfig.MaxTime (retryCfg ex_session) = 2" "connection ex_session = Some (Conn 1)"
    by (simp_all add: ex_defs)
  have b: "executeWithParameter_result ex_env_boom h = (None, Some (Errorf ''boom''))" for h
    by (simp add: ex_defs)
  have i: "sessionID ex_session = 7" "RetryConfig.IdleTime (retryCfg ex_session) = 3"
    by (simp_all add: ex_defs)
  from retry_bound_attempts [where stmt = "''RETURN 1''" and pm = "[]" and tr = "[]"
      and env = ex_env_boom, OF n(1) _ n(2) refl refl _ refl] h
  have "execFunc ex_env_boom ''RETURN 1'' [] ex_session [] =
       Some (Ret ((INil, Some (Errorf ''boom'')),
         [Ev_executeWithParameter (Conn 1) 7 ''RETURN 1'' [], Ev_log LogError, Ev_Sleep 3,
          Ev_executeWithParameter (Conn 1) 7 ''RETURN 1'' []]))"
    by (simp add: retry_rounds_def b i)
  with h n show ?thesis by simp
qed

section \<open>Errors of the statement\<close>

lemma ExecuteWithParameter_run:
  assumes "connection s = Some c" and "parseParams (unrep env) params = (Some pm, None)"
  shows "ExecuteWithParameter env s stmt params tr =
    (case executeWithReconnect env (execFunc env stmt pm) s tr of
       None \<Rightarrow> None
     | Some Panic \<Rightarrow> Some Panic
     | Some (Ret ((rsp, Some err), s1, tr1)) \<Rightarrow> Some (Ret ((None, Some err), s1, tr1))
     | Some (Ret ((IResultSet resSet, None), s1, tr1)) \<Rightarrow> Some (Ret ((Some resSet, None), s1, tr1))
     | Some (Ret ((rsp, None), s1, tr1)) \<Rightarrow> Some Panic)"
  using assms by (simp add: ExecuteWithParameter_def)

lemma not_TransportException_retryable:
  "retryable (rsp, Some e) \<Longrightarrow> \<not> is_TransportException (Some e)"
  by (simp add: retryable_def)

text \<open>
  Claim C2, amended. A response that is not session-invalid or session-timeout (in
  particular one whose error code reports a failure of the statement), returned with a nil
  error, ends the loop after that one call; when \<^verbatim>\<open>genResultSet\<close> yields a result set
  that carries it, that result set is what the caller gets, and nothing is reconnected. A
  non-nil error that is not a transport exception, with a response that is not
  session-invalid, does not end the loop: with a retry bound \<open>N > 0\<close> and such an outcome
  at every attempt the call is made \<open>N\<close> times; the caller then gets the last error as it is,
  and nothing is reconnected.
\<close>

theorem query_error_outcomes:
  assumes "connection s = Some c" and "parseParams (unrep env) params = (Some pm, None)"
    and "ev = Ev_executeWithParameter c (sessionID s) stmt pm"
    and "idle = RetryConfig.IdleTime (retryCfg s)"
    and "tr' = tr @ retry_rounds ev idle (nat N - 1) @ [ev]"
  shows
    "(executeWithParameter_result env (tr @ [ev]) = (rsp, None) \<and> \<not> IsServerSessionError rsp
        \<and> genResultSet env rsp (timezoneInfo s) = Inr rs \<and> resp rs = rsp
      \<longrightarrow> ExecuteWithParameter env s stmt params tr = Some (Ret ((Some rs, None), s, tr @ [ev])))
     \<and> ((\<forall>i < nat N. retryable (executeWithParameter_result env (tr @ retry_rounds ev idle i @ [ev])))
        \<and> RetryConfig.MaxTime (retryCfg s) = N \<and> 0 < N
      \<longrightarrow> (\<exists>rsp' e. executeWithParameter_result env tr' = (rsp', Some e)
            \<and> ExecuteWithParameter env s stmt params tr = Some (Ret ((None, Some e), s, tr'))))"
proof (intro conjI impI)
  assume a: "executeWithParameter_result env (tr @ [ev]) = (rsp, None) \<and> \<not> IsServerSessionError rsp
        \<and> genResultSet env rsp (timezoneInfo s) = Inr rs \<and> resp rs = rsp"
  then have "\<not> retryable (rsp, None)" by (simp add: retryable_def IsQueryOk_def)
  with a have "execFunc_loop env (retryCfg s) c (sessionID s) stmt pm 0 tr = Some ((rsp, None), tr @ [ev])"
    unfolding assms(3) by (intro execFunc_loop_stop) simp_all
  from execFunc_ok [OF assms(1) this] a
  have "execFunc env stmt pm s tr = Some (Ret ((IResultSet rs, None), tr @ [ev]))" by simp
  from executeWithReconnect_ok [of "execFunc env stmt pm", OF this] a
  have "executeWithReconnect env (execFunc env stmt pm) s tr = Some (Ret ((IResultSet rs, None), s, tr @ [ev]))"
    by simp
  then show "ExecuteWithParameter env s stmt params tr = Some (Ret ((Some rs, None), s, tr @ [ev]))"
    by (simp add: ExecuteWithParameter_run [OF assms(1,2)])
next
  assume a: "(\<forall>i < nat N. retryable (executeWithParameter_result env (tr @ retry_rounds ev idle i @ [ev])))
        \<and> RetryConfig.MaxTime (retryCfg s) = N \<and> 0 < N"
  then have mt: "RetryConfig.MaxTime (retryCfg s) = N" and pos: "0 < N"
    and ret: "\<forall>i < nat N. retryable (executeWithParameter_result env (tr @ retry_rounds ev idle i @ [ev]))"
    by simp_all
  obtain rsp' err where o: "executeWithParameter_result env tr' = (rsp', err)"
    by (cases "executeWithParameter_result env tr'")
  from pos ret have "retryable (executeWithParameter_result env tr')"
    unfolding assms(5) by simp
  with o have r: "retryable (rsp', err)" by simp
  then obtain e where e: "err = Some e" using retryable_err by blast
  from ret have each: "\<forall>i \<le> nat N - 1. retryable (executeWithParameter_result env
      (tr @ retry_rounds (Ev_executeWithParameter c (sessionID s) stmt pm)
             (RetryConfig.IdleTime (retryCfg s)) i
          @ [Ev_executeWithParameter c (sessionID s) stmt pm]))"
    using pos unfolding assms(3,4) by auto
  from mt pos have "0 + int (nat N - 1) + 1 = RetryConfig.MaxTime (retryCfg s)" by simp
  from execFunc_loop_retry_each [OF each this] o e assms(3,4,5)
  have "execFunc_loop env (retryCfg s) c (sessionID s) stmt pm 0 tr = Some ((rsp', Some e), tr')"
    by simp
  from execFunc_err [OF assms(1) this]
  have "execFunc env stmt pm s tr = Some (Ret ((INil, Some e), tr'))" .
  from executeWithReconnect_verbatim [of "execFunc env stmt pm", OF this] r e
  have "executeWithReconnect env (execFunc env stmt pm) s tr = Some (Ret ((INil, Some e), s, tr'))"
    using not_TransportException_retryable by blast
  then have "ExecuteWithParameter env s stmt params tr = Some (Ret ((None, Some e), s, tr'))"
    by (simp add: ExecuteWithParameter_run [OF assms(1,2)])
  with o e show "\<exists>rsp' e. executeWithParameter_result env tr' = (rsp', Some e)
            \<and> ExecuteWithParameter env s stmt params tr = Some (Ret ((None, Some e), s, tr'))"
    by blast
qed

lemma parseParams_Nil: "parseParams u [] = (Some [], None)"
  by simp

theorem query_error_outcomes_witness:
  "connection ex_session = Some (Conn 1)
   \<and> parseParams (unrep ex_env_syntax_error) [] = (Some [], None)
   \<and> executeWithParameter_result ex_env_syntax_error
        [Ev_executeWithParameter (Conn 1) 7 ''RETURN x'' []] = (Some ex_syntax_error, None)
   \<and> \<not> IsServerSessionError (Some ex_syntax_error)
   \<and> genResultSet ex_env_syntax_error (Some ex_syntax_error) (timezoneInfo ex_session) =
        Inr \<lparr>resp = Some ex_syntax_error, decoded = []\<rparr>
   \<and> ExecuteWithParameter ex_env_syntax_error ex_session ''RETURN x'' [] [] =
        Some (Ret ((Some \<lparr>resp = Some ex_syntax_error, decoded = []\<rparr>, None), ex_session,
          [Ev_executeWithParameter (Conn 1) 7 ''RETURN x'' []]))
   \<and> retryable (executeWithParameter_result ex_env_boom
        [Ev_executeWithParameter (Conn 1) 7 ''RETURN 1'' []])
   \<and> retryable (executeWithParameter_result ex_env_boom
        [Ev_executeWithParameter (Conn 1) 7 ''RETURN 1'' [], Ev_log LogError, Ev_Sleep 3,
         Ev_executeWithParameter (Conn 1) 7 ''RETURN 1'' []])
   \<and> RetryConfig.MaxTime (retryCfg ex_session) = 2
   \<and> ExecuteWithParameter ex_env_boom ex_session ''RETURN 1'' [] [] =
        Some (Ret ((None, Some (Errorf ''boom'')), ex_session,
          [Ev_executeWithParameter (Conn 1) 7 ''RETURN 1'' [], Ev_log LogError, Ev_Sleep 3,
           Ev_executeWithParameter (Conn 1) 7 ''RETURN 1'' []]))"
proof -
  have c: "connection ex_session = Some (Conn 1)" by (simp add: ex_defs)
  have a: "executeWithParameter_result ex_env_syntax_error
        [Ev_executeWithParameter (Conn 1) 7 ''RETURN x'' []] = (Some ex_syntax_error, None)"
    "\<not> IsServerSessionError (Some ex_syntax_error)"
    "genResultSet ex_env_syntax_error (Some ex_syntax_error) (timezoneInfo ex_session) =
        Inr \<lparr>resp = Some ex_syntax_error, decoded = []\<rparr>"
    by (simp_all add: ex_defs)
  have i: "sessionID ex_session = 7" "RetryConfig.IdleTime (retryCfg ex_session) = 3"
    "RetryConfig.MaxTime (retryCfg ex_session) = 2"
    by (simp_all add: ex_defs)
  from query_error_outcomes [where s = ex_session and env = ex_env_syntax_error
      and stmt = "''RETURN x''" and params = "[]" and pm = "[]" and tr = "[]"
      and rsp = "Some ex_syntax_error" and rs = "\<lparr>resp = Some ex_syntax_error, decoded = []\<rparr>",
      OF c parseParams_Nil refl refl refl] a i
  have 1: "ExecuteWithParameter ex_env_syntax_error ex_session ''RETURN x'' [] [] =
        Some (Ret ((Some \<lparr>resp = Some ex_syntax_error, decoded = []\<rparr>, None), ex_session,
          [Ev_executeWithParameter (Conn 1) 7 ''RETURN x'' []]))"
    by simp
  have b: "executeWithParameter_result ex_env_boom h = (None, Some (Errorf ''boom''))" for h
    by (simp add: ex_defs)
  have h: "retryable (executeWithParameter_result ex_env_boom h)" for h
    by (simp add: b retryable_def IsQueryOk_def)
  from query_error_outcomes [where s = ex_session and env = ex_env_boom
      and stmt = "''RETURN 1''" and params = "[]" and pm = "[]" and tr = "[]" and N = 2,
      OF c parseParams_Nil refl refl refl] h i
  have 2: "ExecuteWithParameter ex_env_boom ex_session ''RETURN 1'' [] [] =
        Some (Ret ((None, Some (Errorf ''boom'')), ex_session,
          [Ev_executeWithParameter (Conn 1) 7 ''RETURN 1'' [], Ev_log LogError, Ev_Sleep 3,
           Ev_executeWithParameter (Conn 1) 7 ''RETURN 1'' []]))"
    by (simp add: retry_rounds_def b)
  from c parseParams_Nil a 1 h i 2 show ?thesis by simp
qed

text \<open>
  The claim C2 as stated fails for a non-nil error that is not a transport exception: with
  a retry bound of two, the call is made a second time before the error is returned.
\<close>

theorem query_error_is_retried_counterexample:
  "executeWithParameter_result ex_env_boom [Ev_executeWithParameter (Conn 1) 7 ''RETURN 1'' []] =
     (None, Some (Errorf ''boom''))
   \<and> ExecuteWithParameter ex_env_boom ex_session ''RETURN 1'' [] [] =
        Some (Ret ((None, Some (Errorf ''boom'')), ex_session,
          [Ev_executeWithParameter (Conn 1) 7 ''RETURN 1'' [], Ev_log LogError, Ev_Sleep 3,
           Ev_executeWithParameter (Conn 1) 7 ''RETURN 1'' []]))"
  by (simp add: run_defs ex_defs)

section \<open>Transport exceptions, invalid sessions and the reconnect\<close>

lemma execFuncJson_loop_stop:
  assumes "ExecuteJsonWithParameter_result env (tr @ [Ev_ExecuteJsonWithParameter c sid stmt pm]) = (b, err)"
    and "is_TransportException err"
  shows "execFuncJson_loop env cfg c sid stmt pm k tr =
    Some ((INil, err), tr @ [Ev_ExecuteJsonWithParameter c sid stmt pm])"
proof -
  from assms(2) have "err \<noteq> None" by (cases err) simp_all
  with assms show ?thesis by (subst execFuncJson_loop.simps) (simp add: Let_def)
qed

lemma execFuncJson_loop_ok:
  assumes "ExecuteJsonWithParameter_result env (tr @ [Ev_ExecuteJsonWithParameter c sid stmt pm]) = (b, None)"
  shows "execFuncJson_loop env cfg c sid stmt pm k tr =
    Some ((IBytes b, None), tr @ [Ev_ExecuteJsonWithParameter c sid stmt pm])"
  using assms by (subst execFuncJson_loop.simps) (auto simp: Let_def)

lemma executeWithReconnect_reconnects:
  assumes "f s tr = Some (Ret ((rif, err), tr1))"
    and "is_TransportException err \<or> (\<exists>rs. rif = IResultSet rs \<and> IsServerSessionError (resp rs))"
  shows "executeWithReconnect env f s tr =
    (case reconnect_loop env s 0 (time_Now env tr1) tr1 of
       None \<Rightarrow> None
     | Some (Some e, s1, tr2) \<Rightarrow> Some (Ret ((INil, Some (Errorf ''Nebula Down'')), s1, tr2))
     | Some (None, s1, tr2) \<Rightarrow>
         (case connection s1 of
            None \<Rightarrow> Some Panic
          | Some c1 \<Rightarrow>
              (case f s1 (tr2 @ [Ev_log LogInfo]) of
                 None \<Rightarrow> None
               | Some Panic \<Rightarrow> Some Panic
               | Some (Ret (r, tr3)) \<Rightarrow> Some (Ret (r, s1, tr3)))))"
proof -
  let ?param = "case rif of IResultSet ret \<Rightarrow> resp ret | _ \<Rightarrow> None"
  from assms(2) have g: "is_TransportException err \<or> IsServerSessionError ?param" by auto
  from assms(2) have n: "\<not> (case rif of IResultSet ret \<Rightarrow> IsQueryOk err ?param | _ \<Rightarrow> err = None)"
    by (cases err) (auto simp: IsQueryOk_def split: iface.splits)
  from g have r: "reconnectWithExecuteErr env s ?param err tr1 =
      (case reconnect_loop env s 0 (time_Now env tr1) tr1 of
         None \<Rightarrow> None
       | Some (Some e, s1, tr2) \<Rightarrow> Some (Ret (Some (Errorf ''Nebula Down''), s1, tr2))
       | Some (None, s1, tr2) \<Rightarrow>
           (case connection s1 of
              None \<Rightarrow> Some Panic
            | Some c1 \<Rightarrow> Some (Ret (None, s1, tr2 @ [Ev_log LogInfo]))))"
    by (auto simp: reconnectWithExecuteErr_def)
  show ?thesis
    using n by (simp add: executeWithReconnect_def assms(1) r Let_def split: option.splits prod.splits)
qed

text \<open>
  Claim C3, amended. On both execute paths, an attempt that fails with a transport
  exception ends the retry loop at once, whatever the retry counter; so does, on the
  \<^verbatim>\<open>ResultSet\<close> path, a session-invalid or session-timeout response. The closure
  returns the error the loop ended with, or, after a nil error, the result set that
  \<^verbatim>\<open>genResultSet\<close> makes of the response. When the closure returns a transport
  exception, or a result set whose response is session-invalid or session-timeout,
  \<^verbatim>\<open>executeWithReconnect\<close> runs the reconnect loop once: its failure is the error
  "Nebula Down", and after its success the closure is run once more. (On the JSON
  path a response is a byte string that is never decoded: see the counterexample below.)
\<close>

theorem transport_or_session_error_reconnect:
  "(executeWithParameter_result env (tr @ [Ev_executeWithParameter c sid stmt pm]) = (rsp, err)
      \<and> (is_TransportException err \<or> IsServerSessionError rsp)
     \<longrightarrow> execFunc_loop env cfg c sid stmt pm k tr =
           Some ((rsp, err), tr @ [Ev_executeWithParameter c sid stmt pm]))
   \<and> (ExecuteJsonWithParameter_result env (tr @ [Ev_ExecuteJsonWithParameter c sid stmt pm]) = (b, err)
      \<and> is_TransportException err
     \<longrightarrow> execFuncJson_loop env cfg c sid stmt pm k tr =
           Some ((INil, err), tr @ [Ev_ExecuteJsonWithParameter c sid stmt pm]))
   \<and> (connection s = Some c
      \<and> execFunc_loop env (retryCfg s) c (sessionID s) stmt pm 0 tr = Some ((rsp, Some e), tr1)
     \<longrightarrow> execFunc env stmt pm s tr = Some (Ret ((INil, Some e), tr1)))
   \<and> (connection s = Some c
      \<and> execFunc_loop env (retryCfg s) c (sessionID s) stmt pm 0 tr = Some ((rsp, None), tr1)
      \<and> genResultSet env rsp (timezoneInfo s) = Inr rs
     \<longrightarrow> execFunc env stmt pm s tr = Some (Ret ((IResultSet rs, None), tr1)))
   \<and> (connection s = Some c
      \<and> execFuncJson_loop env (retryCfg s) c (sessionID s) stmt pm 0 tr = Some (r, tr1)
     \<longrightarrow> execFuncJson env stmt pm s tr = Some (Ret (r, tr1)))
   \<and> (f s tr = Some (Ret ((rif, err), tr1))
      \<and> (is_TransportException err \<or> (\<exists>rs. rif = IResultSet rs \<and> IsServerSessionError (resp rs)))
     \<longrightarrow> executeWithReconnect env f s tr =
          (case reconnect_loop env s 0 (time_Now env tr1) tr1 of
             None \<Rightarrow> None
           | Some (Some e, s1, tr2) \<Rightarrow> Some (Ret ((INil, Some (Errorf ''Nebula Down'')), s1, tr2))
           | Some (None, s1, tr2) \<Rightarrow>
               (case connection s1 of
                  None \<Rightarrow> Some Panic
                | Some c1 \<Rightarrow>
                    (case f s1 (tr2 @ [Ev_log LogInfo]) of
                       None \<Rightarrow> None
                     | Some Panic \<Rightarrow> Some Panic
                     | Some (Ret (r, tr3)) \<Rightarrow> Some (Ret (r, s1, tr3))))))"
proof (intro conjI impI)
  assume a: "executeWithParameter_result env (tr @ [Ev_executeWithParameter c sid stmt pm]) = (rsp, err)
      \<and> (is_TransportException err \<or> IsServerSessionError rsp)"
  then have "\<not> retryable (rsp, err)" by (auto simp: retryable_def)
  with a show "execFunc_loop env cfg c sid stmt pm k tr =
           Some ((rsp, err), tr @ [Ev_executeWithParameter c sid stmt pm])"
    by (intro execFunc_loop_stop) simp_all
next
  assume "ExecuteJsonWithParameter_result env (tr @ [Ev_ExecuteJsonWithParameter c sid stmt pm]) = (b, err)
      \<and> is_TransportException err"
  then show "execFuncJson_loop env cfg c sid stmt pm k tr =
           Some ((INil, err), tr @ [Ev_ExecuteJsonWithParameter c sid stmt pm])"
    by (intro execFuncJson_loop_stop) simp_all
next
  assume "connection s = Some c
      \<and> execFunc_loop env (retryCfg s) c (sessionID s) stmt pm 0 tr = Some ((rsp, Some e), tr1)"
  then show "execFunc env stmt pm s tr = Some (Ret ((INil, Some e), tr1))"
    by (simp add: execFunc_def)
next
  assume "connection s = Some c
      \<and> execFunc_loop env (retryCfg s) c (sessionID s) stmt pm 0 tr = Some ((rsp, None), tr1)
      \<and> genResultSet env rsp (timezoneInfo s) = Inr rs"
  then show "execFunc env stmt pm s tr = Some (Ret ((IResultSet rs, None), tr1))"
    by (simp add: execFunc_def)
next
  assume "connection s = Some c
      \<and> execFuncJson_loop env (retryCfg s) c (sessionID s) stmt pm 0 tr = Some (r, tr1)"
  then show "execFuncJson env stmt pm s tr = Some (Ret (r, tr1))"
    by (simp add: execFuncJson_def)
next
  assume "f s tr = Some (Ret ((rif, err), tr1))
      \<and> (is_TransportException err \<or> (\<exists>rs. rif = IResultSet rs \<and> IsServerSessionError (resp rs)))"
  then have "f s tr = Some (Ret ((rif, err), tr1))"
    and "is_TransportException err \<or> (\<exists>rs. rif = IResultSet rs \<and> IsServerSessionError (resp rs))"
    by simp_all
  then show "executeWithReconnect env f s tr =
          (case reconnect_loop env s 0 (time_Now env tr1) tr1 of
             None \<Rightarrow> None
           | Some (Some e, s1, tr2) \<Rightarrow> Some (Ret ((INil, Some (Errorf ''Nebula Down'')), s1, tr2))
           | Some (None, s1, tr2) \<Rightarrow>
               (case connection s1 of
                  None \<Rightarrow> Some Panic
                | Some c1 \<Rightarrow>
                    (case f s1 (tr2 @ [Ev_log LogInfo]) of
                       None \<Rightarrow> None
                     | Some Panic \<Rightarrow> Some Panic
                     | Some (Ret (r, tr3)) \<Rightarrow> Some (Ret (r, s1, tr3)))))"
    by (rule executeWithReconnect_reconnects)
qed

theorem transport_or_session_error_reconnect_witness:
  "executeWithParameter_result ex_env_eof_once
      [Ev_executeWithParameter (Conn 1) 7 ''RETURN 1'' []] = (None, Some (TransportException ''EOF''))
   \<and> is_TransportException (Some (TransportException ''EOF''))
   \<and> execFunc_loop ex_env_eof_once (retryCfg ex_session) (Conn 1) 7 ''RETURN 1'' [] 0 [] =
       Some ((None, Some (TransportException ''EOF'')),
             [Ev_executeWithParameter (Conn 1) 7 ''RETURN 1'' []])
   \<and> ExecuteJsonWithParameter_result ex_env_eof_once
      [Ev_ExecuteJsonWithParameter (Conn 1) 7 ''RETURN 1'' []] = ([], Some (TransportException ''EOF''))
   \<and> execFuncJson_loop ex_env_eof_once (retryCfg ex_session) (Conn 1) 7 ''RETURN 1'' [] 0 [] =
       Some ((INil, Some (TransportException ''EOF'')),
             [Ev_ExecuteJsonWithParameter (Conn 1) 7 ''RETURN 1'' []])
   \<and> execFunc ex_env_eof_once ''RETURN 1'' [] ex_session [] =
       Some (Ret ((INil, Some (TransportException ''EOF'')),
             [Ev_executeWithParameter (Conn 1) 7 ''RETURN 1'' []]))
   \<and> execFuncJson ex_env_eof_once ''RETURN 1'' [] ex_session [] =
       Some (Ret ((INil, Some (TransportException ''EOF'')),
             [Ev_ExecuteJsonWithParameter (Conn 1) 7 ''RETURN 1'' []]))
   \<and> IsServerSessionError (Some ex_session_invalid)
   \<and> execFunc_loop ex_env_invalid_once (retryCfg ex_session) (Conn 1) 7 ''RETURN 1'' [] 0 [] =
       Some ((Some ex_session_invalid, None), [Ev_executeWithParameter (Conn 1) 7 ''RETURN 1'' []])
   \<and> execFunc ex_env_invalid_once ''RETURN 1'' [] ex_session [] =
       Some (Ret ((IResultSet \<lparr>resp = Some ex_session_invalid, decoded = []\<rparr>, None),
             [Ev_executeWithParameter (Conn 1) 7 ''RETURN 1'' []]))
   \<and> executeWithReconnect ex_env_invalid_once (execFunc ex_env_invalid_once ''RETURN 1'' [])
         ex_session [] =
       Some (Ret ((IResultSet \<lparr>resp = Some ex_ok, decoded = []\<rparr>, None),
         ex_session\<lparr>connection := Some (Conn 2)\<rparr>,
         [Ev_executeWithParameter (Conn 1) 7 ''RETURN 1'' [],
          Ev_getIdleConn (ConnectionPool 0),
          Ev_release (ConnectionPool 0) (Some (Conn 1)),
          Ev_log LogInfo,
          Ev_executeWithParameter (Conn 2) 7 ''RETURN 1'' []]))
   \<and> executeWithReconnect ex_env_eof_once (execFunc ex_env_eof_once ''RETURN 1'' []) ex_session [] =
       Some (Ret ((IResultSet \<lparr>resp = Some ex_ok, decoded = []\<rparr>, None),
         ex_session\<lparr>connection := Some (Conn 2)\<rparr>,
         [Ev_executeWithParameter (Conn 1) 7 ''RETURN 1'' [],
          Ev_getIdleConn (ConnectionPool 0),
          Ev_release (ConnectionPool 0) (Some (Conn 1)),
          Ev_log LogInfo,
          Ev_executeWithParameter (Conn 2) 7 ''RETURN 1'' []]))"
  using transport_or_session_error_reconnect [where env = ex_env_eof_once and tr = "[]"
      and c = "Conn 1" and sid = 7 and stmt = "''RETURN 1''" and pm = "[]"
      and rsp = None and err = "Some (TransportException ''EOF'')" and cfg = "retryCfg ex_session"
      and k = 0 and b = "[]" and f = "execFunc ex_env_eof_once ''RETURN 1'' []"
      and s = ex_session and rif = INil and e = "TransportException ''EOF''"
      and r = "(INil, Some (TransportException ''EOF''))"
      and ?tr1.0 = "[Ev_executeWithParameter (Conn 1) 7 ''RETURN 1'' []]"]
    transport_or_session_error_reconnect [where env = ex_env_invalid_once and tr = "[]"
      and c = "Conn 1" and sid = 7 and stmt = "''RETURN 1''" and pm = "[]"
      and rsp = "Some ex_session_invalid" and err = None and cfg = "retryCfg ex_session"
      and k = 0 and s = ex_session
      and f = "execFunc ex_env_invalid_once ''RETURN 1'' []"
      and rif = "IResultSet \<lparr>resp = Some ex_session_invalid, decoded = []\<rparr>"
      and rs = "\<lparr>resp = Some ex_session_invalid, decoded = []\<rparr>"
      and ?tr1.0 = "[Ev_executeWithParameter (Conn 1) 7 ''RETURN 1'' []]"]
  by (simp add: run_defs ex_defs)

text \<open>
  The claim C3 as stated fails on the JSON path for a session-invalid response: the reply
  comes with a nil error, and it is returned to the caller with no reconnect.
\<close>

theorem json_session_invalid_counterexample:
  "ExecuteJsonWithParameter_result ex_env_json_session_invalid
      [Ev_ExecuteJsonWithParameter (Conn 1) 7 ''RETURN 1'' []] =
        (''{errors:[{code:E_SESSION_INVALID}]}'', None)
   \<and> ExecuteJsonWithParameter ex_env_json_session_invalid ex_session ''RETURN 1'' [] [] =
       Some (Ret ((Some ''{errors:[{code:E_SESSION_INVALID}]}'', None), ex_session,
         [Ev_ExecuteJsonWithParameter (Conn 1) 7 ''RETURN 1'' []]))"
  by (simp add: run_defs ex_defs)

text \<open>
  Claim C4, amended. After the reconnect loop has succeeded, the closure (the call with
  its retry loop) is run exactly once more, on the session as repaired, and what it returns
  is final, a transport exception included: no second reconnect follows. That run calls
  the transport exactly once when the outcome of the call is not retryable (on the JSON
  path: success or a transport exception); after a retryable outcome its own retry loop
  calls again, up to the retry bound.
\<close>

theorem post_reconnect_run_is_final:
  "(f s tr = Some (Ret ((rif, err), tr1))
      \<and> (is_TransportException err \<or> (\<exists>rs. rif = IResultSet rs \<and> IsServerSessionError (resp rs)))
      \<and> reconnect_loop env s 0 (time_Now env tr1) tr1 = Some (None, s1, tr2)
      \<and> connection s1 = Some c1
     \<longrightarrow> executeWithReconnect env f s tr =
          (case f s1 (tr2 @ [Ev_log LogInfo]) of
             None \<Rightarrow> None
           | Some Panic \<Rightarrow> Some Panic
           | Some (Ret (r, tr3)) \<Rightarrow> Some (Ret (r, s1, tr3))))
   \<and> (connection s1 = Some c1
      \<and> executeWithParameter_result env (h @ [Ev_executeWithParameter c1 (sessionID s1) stmt pm]) = (rsp, e)
      \<and> \<not> retryable (rsp, e)
     \<longrightarrow> (\<exists>r. execFunc env stmt pm s1 h =
            Some (Ret (r, h @ [Ev_executeWithParameter c1 (sessionID s1) stmt pm]))))
   \<and> (connection s1 = Some c1
      \<and> ExecuteJsonWithParameter_result env (h @ [Ev_ExecuteJsonWithParameter c1 (sessionID s1) stmt pm]) = (b, e)
      \<and> (e = None \<or> is_TransportException e)
     \<longrightarrow> (\<exists>r. execFuncJson env stmt pm s1 h =
            Some (Ret (r, h @ [Ev_ExecuteJsonWithParameter c1 (sessionID s1) stmt pm]))))"
proof (intro conjI impI)
  assume a: "f s tr = Some (Ret ((rif, err), tr1))
      \<and> (is_TransportException err \<or> (\<exists>rs. rif = IResultSet rs \<and> IsServerSessionError (resp rs)))
      \<and> reconnect_loop env s 0 (time_Now env tr1) tr1 = Some (None, s1, tr2)
      \<and> connection s1 = Some c1"
  then have "f s tr = Some (Ret ((rif, err), tr1))"
    and "is_TransportException err \<or> (\<exists>rs. rif = IResultSet rs \<and> IsServerSessionError (resp rs))"
    by simp_all
  from executeWithReconnect_reconnects [where f = f and s = s and tr = tr and env = env, OF this] a
  show "executeWithReconnect env f s tr =
          (case f s1 (tr2 @ [Ev_log LogInfo]) of
             None \<Rightarrow> None
           | Some Panic \<Rightarrow> Some Panic
           | Some (Ret (r, tr3)) \<Rightarrow> Some (Ret (r, s1, tr3)))"
    by simp
next
  assume a: "connection s1 = Some c1
      \<and> executeWithParameter_result env (h @ [Ev_executeWithParameter c1 (sessionID s1) stmt pm]) = (rsp, e)
      \<and> \<not> retryable (rsp, e)"
  then have "execFunc_loop env (retryCfg s1) c1 (sessionID s1) stmt pm 0 h =
      Some ((rsp, e), h @ [Ev_executeWithParameter c1 (sessionID s1) stmt pm])"
    by (intro execFunc_loop_stop) simp_all
  with a show "\<exists>r. execFunc env stmt pm s1 h =
            Some (Ret (r, h @ [Ev_executeWithParameter c1 (sessionID s1) stmt pm]))"
    by (simp add: execFunc_def split: option.splits sum.splits)
next
  assume a: "connection s1 = Some c1
      \<and> ExecuteJsonWithParameter_result env (h @ [Ev_ExecuteJsonWithParameter c1 (sessionID s1) stmt pm]) = (b, e)
      \<and> (e = None \<or> is_TransportException e)"
  then have "\<exists>r. execFuncJson_loop env (retryCfg s1) c1 (sessionID s1) stmt pm 0 h =
      Some (r, h @ [Ev_ExecuteJsonWithParameter c1 (sessionID s1) stmt pm])"
    using execFuncJson_loop_stop [of env h c1 "sessionID s1" stmt pm b e]
      execFuncJson_loop_ok [of env h c1 "sessionID s1" stmt pm b]
    by auto
  with a show "\<exists>r. execFuncJson env stmt pm s1 h =
            Some (Ret (r, h @ [Ev_ExecuteJsonWithParameter c1 (sessionID s1) stmt pm]))"
    by (auto simp: execFuncJson_def)
qed

theorem post_reconnect_run_is_final_witness:
  "execFunc ex_env_eof_once ''RETURN 1'' [] ex_session [] =
       Some (Ret ((INil, Some (TransportException ''EOF'')),
             [Ev_executeWithParameter (Conn 1) 7 ''RETURN 1'' []]))
   \<and> is_TransportException (Some (TransportException ''EOF''))
   \<and> reconnect_loop ex_env_eof_once ex_session 0
        (time_Now ex_env_eof_once [Ev_executeWithParameter (Conn 1) 7 ''RETURN 1'' []])
        [Ev_executeWithParameter (Conn 1) 7 ''RETURN 1'' []] =
       Some (None, ex_session\<lparr>connection := Some (Conn 2)\<rparr>,
         [Ev_executeWithParameter (Conn 1) 7 ''RETURN 1'' [],
          Ev_getIdleConn (ConnectionPool 0),
          Ev_release (ConnectionPool 0) (Some (Conn 1))])
   \<and> connection (ex_session\<lparr>connection := Some (Conn 2)\<rparr>) = Some (Conn 2)
   \<and> executeWithReconnect ex_env_eof_once (execFunc ex_env_eof_once ''RETURN 1'' []) ex_session [] =
       Some (Ret ((IResultSet \<lparr>resp = Some ex_ok, decoded = []\<rparr>, None),
         ex_session\<lparr>connection := Some (Conn 2)\<rparr>,
         [Ev_executeWithParameter (Conn 1) 7 ''RETURN 1'' [],
          Ev_getIdleConn (ConnectionPool 0),
          Ev_release (ConnectionPool 0) (Some (Conn 1)),
          Ev_log LogInfo,
          Ev_executeWithParameter (Conn 2) 7 ''RETURN 1'' []]))
   \<and> \<not> retryable (None, Some (TransportException ''EOF''))
   \<and> (\<exists>r. execFunc ex_env_eof_once ''RETURN 1'' [] (ex_session\<lparr>connection := Some (Conn 2)\<rparr>) [] =
          Some (Ret (r, [Ev_executeWithParameter (Conn 2) 7 ''RETURN 1'' []])))
   \<and> (\<exists>r. execFuncJson ex_env_eof_once ''RETURN 1'' [] (ex_session\<lparr>connection := Some (Conn 2)\<rparr>) [] =
          Some (Ret (r, [Ev_ExecuteJsonWithParameter (Conn 2) 7 ''RETURN 1'' []])))"
  using post_reconnect_run_is_final [where env = ex_env_eof_once and tr = "[]"
      and f = "execFunc ex_env_eof_once ''RETURN 1'' []" and s = ex_session and rif = INil
      and err = "Some (TransportException ''EOF'')"
      and ?tr1.0 = "[Ev_executeWithParameter (Conn 1) 7 ''RETURN 1'' []]"
      and ?s1.0 = "ex_session\<lparr>connection := Some (Conn 2)\<rparr>" and ?c1.0 = "Conn 2"
      and ?tr2.0 = "[Ev_executeWithParameter (Conn 1) 7 ''RETURN 1'' [],
          Ev_getIdleConn (ConnectionPool 0),
          Ev_release (ConnectionPool 0) (Some (Conn 1))]"
      and h = "[]" and stmt = "''RETURN 1''" and pm = "[]" and rsp = None
      and e = "Some (TransportException ''EOF'')" and b = "[]"]
  by (simp add: run_defs retryable_def ex_defs)

text \<open>
  The claim C4 as stated fails when the first call on the repaired connection ends in a
  retryable error: the retry loop of that run calls the transport a second time.
\<close>

theorem post_reconnect_retry_counterexample:
  "ExecuteWithParameter ex_env_flaky ex_session ''RETURN 1'' [] [] =
     Some (Ret ((Some \<lparr>resp = Some ex_ok, decoded = []\<rparr>, None),
       ex_session\<lparr>connection := Some (Conn 2)\<rparr>,
       [Ev_executeWithParameter (Conn 1) 7 ''RETURN 1'' [],
        Ev_getIdleConn (ConnectionPool 0),
        Ev_release (ConnectionPool 0) (Some (Conn 1)),
        Ev_log LogInfo,
        Ev_executeWithParameter (Conn 2) 7 ''RETURN 1'' [],
        Ev_log LogError, Ev_Sleep 3,
        Ev_executeWithParameter (Conn 2) 7 ''RETURN 1'' []]))"
  by (simp add: run_defs ex_defs)

section \<open>The bounds of the reconnect loop\<close>

lemma reConnect_fail:
  assumes "fst (reConnect env s h) \<noteq> None"
  shows "\<exists>e. reConnect env s h = (Some e, s, h @ reconnect_attempt s)"
  using assms
  by (auto simp: reConnect_def reconnect_attempt_def Let_def split: option.splits sum.splits)

lemma reconnect_loop_fail_step:
  assumes "reConnect env s tr = (Some e, s, tr @ reconnect_attempt s)"
  shows "reconnect_loop env s k st tr =
    (if MaxTimeDuration (reconnectCfg s) \<noteq> 0
        \<and> MaxTimeDuration (reconnectCfg s)
            \<le> time_Now env (tr @ reconnect_attempt s @ [Ev_log LogError]) - st
     then Some (Some e, s, tr @ reconnect_attempt s @ [Ev_log LogError])
     else if ReconnectConfig.MaxTime (reconnectCfg s) \<noteq> 0
        \<and> ReconnectConfig.MaxTime (reconnectCfg s) \<le> k + 1
     then Some (Some e, s, tr @ reconnect_attempt s @ [Ev_log LogError])
     else reconnect_loop env s (if ReconnectConfig.MaxTime (reconnectCfg s) \<noteq> 0 then k + 1 else k) st
            (tr @ reconnect_attempt s
              @ [Ev_log LogError, Ev_Sleep (ReconnectConfig.IdleTime (reconnectCfg s))]))"
  by (subst reconnect_loop.simps) (simp add: assms Let_def)

lemma reconnect_rounds_snoc:
  "reconnect_rounds s (Suc i) =
     reconnect_rounds s i @ reconnect_attempt s
       @ [Ev_log LogError, Ev_Sleep (ReconnectConfig.IdleTime (reconnectCfg s))]"
proof -
  have "concat (replicate (Suc i) x) = concat (replicate i x) @ x" for x :: "Event list"
    by (induction i) simp_all
  then show ?thesis unfolding reconnect_rounds_def by simp
qed

lemma reconnect_loop_first_stop:
  assumes fail: "\<forall>j \<le> n. fst (reConnect env s (tr @ reconnect_rounds s j)) \<noteq> None"
    and stop: "reconnect_stops env s tr n"
    and first: "\<forall>j < n. \<not> reconnect_stops env s tr j"
  shows "i \<le> n \<Longrightarrow>
    \<exists>e. reconnect_loop env s (if ReconnectConfig.MaxTime (reconnectCfg s) \<noteq> 0 then int i else 0)
          (time_Now env tr) (tr @ reconnect_rounds s i) =
        Some (Some e, s, reconnect_check s tr n)"
proof (induction "n - i" arbitrary: i)
  case 0
  then have i: "i = n" by simp
  from fail reConnect_fail [of env s "tr @ reconnect_rounds s n"] obtain e
    where e: "reConnect env s (tr @ reconnect_rounds s n) =
        (Some e, s, (tr @ reconnect_rounds s n) @ reconnect_attempt s)" by auto
  from stop have "reconnect_loop env s (if ReconnectConfig.MaxTime (reconnectCfg s) \<noteq> 0 then int n else 0)
          (time_Now env tr) (tr @ reconnect_rounds s n) =
        Some (Some e, s, reconnect_check s tr n)"
    by (subst reconnect_loop_fail_step [OF e])
      (auto simp: reconnect_stops_def reconnect_check_def)
  with i show ?case by blast
next
  case (Suc d)
  then have lt: "i < n" and le: "Suc i \<le> n" and d: "d = n - Suc i" by simp_all
  from lt fail reConnect_fail [of env s "tr @ reconnect_rounds s i"] obtain e
    where e: "reConnect env s (tr @ reconnect_rounds s i) =
        (Some e, s, (tr @ reconnect_rounds s i) @ reconnect_attempt s)" by auto
  from first lt have ns: "\<not> reconnect_stops env s tr i" by simp
  from Suc.hyps(1) [OF d le] obtain e'
    where l: "reconnect_loop env s (if ReconnectConfig.MaxTime (reconnectCfg s) \<noteq> 0 then int (Suc i) else 0)
          (time_Now env tr) (tr @ reconnect_rounds s (Suc i)) =
        Some (Some e', s, reconnect_check s tr n)" by blast
  from ns have "reconnect_loop env s (if ReconnectConfig.MaxTime (reconnectCfg s) \<noteq> 0 then int i else 0)
          (time_Now env tr) (tr @ reconnect_rounds s i) =
      reconnect_loop env s (if ReconnectConfig.MaxTime (reconnectCfg s) \<noteq> 0 then int (Suc i) else 0)
          (time_Now env tr) (tr @ reconnect_rounds s (Suc i))"
    by (subst reconnect_loop_fail_step [OF e])
      (auto simp: reconnect_stops_def reconnect_check_def reconnect_rounds_snoc ac_simps)
  with l show ?case by simp
qed

lemma reconnect_loop_never_stops_aux:
  assumes fail: "\<forall>j. fst (reConnect env s (tr @ reconnect_rounds s j)) \<noteq> None"
    and never: "\<forall>j. \<not> reconnect_stops env s tr j"
  shows "reconnect_loop env1 s1 k1 st1 tr1 = Some y \<Longrightarrow>
    \<not> (env1 = env \<and> s1 = s \<and> st1 = time_Now env tr
        \<and> (\<exists>i. k1 = (if ReconnectConfig.MaxTime (reconnectCfg s) \<noteq> 0 then int i else 0)
              \<and> tr1 = tr @ reconnect_rounds s i))"
proof -
  assume run: "reconnect_loop env1 s1 k1 st1 tr1 = Some y"
  show ?thesis
  proof (rule reconnect_loop.raw_induct
      [where P = "\<lambda>a b c d t r. \<not> (a = env \<and> b = s \<and> d = time_Now env tr
        \<and> (\<exists>i. c = (if ReconnectConfig.MaxTime (reconnectCfg s) \<noteq> 0 then int i else 0)
              \<and> t = tr @ reconnect_rounds s i))", OF _ run], goal_cases)
    case (1 f env2 s2 k2 st2 tr2 y2)
    show ?case
    proof
      assume "env2 = env \<and> s2 = s \<and> st2 = time_Now env tr
        \<and> (\<exists>i. k2 = (if ReconnectConfig.MaxTime (reconnectCfg s) \<noteq> 0 then int i else 0)
              \<and> tr2 = tr @ reconnect_rounds s i)"
      then obtain i where eq: "env2 = env" "s2 = s" "st2 = time_Now env tr"
        and k: "k2 = (if ReconnectConfig.MaxTime (reconnectCfg s) \<noteq> 0 then int i else 0)"
        and t: "tr2 = tr @ reconnect_rounds s i" by blast
      from fail reConnect_fail [of env s "tr @ reconnect_rounds s i"] obtain e
        where e: "reConnect env s (tr @ reconnect_rounds s i) =
          (Some e, s, (tr @ reconnect_rounds s i) @ reconnect_attempt s)" by auto
      from never have ns: "\<not> reconnect_stops env s tr i" by simp
      with "1"(2) eq k t e
      have "f env s (if ReconnectConfig.MaxTime (reconnectCfg s) \<noteq> 0 then int (Suc i) else 0)
          (time_Now env tr) (tr @ reconnect_rounds s (Suc i)) = Some y2"
        by (auto simp: Let_def reconnect_stops_def reconnect_check_def reconnect_rounds_snoc
            ac_simps split: if_splits)
      from "1"(1) [OF this] show False by blast
    qed
  qed
qed

lemma reconnect_loop_never_stops:
  assumes "\<forall>j. fst (reConnect env s (tr @ reconnect_rounds s j)) \<noteq> None"
    and "\<forall>j. \<not> reconnect_stops env s tr j"
  shows "reconnect_loop env s 0 (time_Now env tr) tr = None"
proof (cases "reconnect_loop env s 0 (time_Now env tr) tr")
  case None
  then show ?thesis .
next
  case (Some y)
  have "\<exists>i. (0::int) = (if ReconnectConfig.MaxTime (reconnectCfg s) \<noteq> 0 then int i else 0)
      \<and> tr = tr @ reconnect_rounds s i"
    by (intro exI [of _ 0]) (simp add: reconnect_rounds_def)
  with reconnect_loop_never_stops_aux [OF assms Some] show ?thesis by blast
qed

lemma first_stop_exists:
  assumes "reconnect_stops env s tr j"
  shows "\<exists>n \<le> j. reconnect_stops env s tr n \<and> (\<forall>i < n. \<not> reconnect_stops env s tr i)"
proof -
  let ?n = "LEAST n. reconnect_stops env s tr n"
  from assms have "reconnect_stops env s tr ?n" by (rule LeastI)
  moreover from assms have "?n \<le> j" by (rule Least_le)
  moreover have "\<forall>i < ?n. \<not> reconnect_stops env s tr i" using not_less_Least by blast
  ultimately show ?thesis by blast
qed

lemma reconnectWithExecuteErr_exhausted:
  assumes "is_TransportException err \<or> IsServerSessionError rsp"
    and "reconnect_loop env s 0 (time_Now env tr) tr = Some (Some e, s1, tr1)"
  shows "reconnectWithExecuteErr env s rsp err tr = Some (Ret (Some (Errorf ''Nebula Down''), s1, tr1))"
  using assms by (auto simp: reconnectWithExecuteErr_def)

lemma reconnectWithExecuteErr_never:
  assumes "is_TransportException err \<or> IsServerSessionError rsp"
    and "reconnect_loop env s 0 (time_Now env tr) tr = None"
  shows "reconnectWithExecuteErr env s rsp err tr = None"
  using assms by (auto simp: reconnectWithExecuteErr_def)

text \<open>
  Claim C5. Let \<open>N\<close> be the attempt bound and \<open>D\<close> the time bound of the policy, and let
  the reconnect be entered at the history \<open>tr\<close>. After each failed attempt the loop tests
  the time bound first and the attempt bound second: it stops at the test number \<open>j + 1\<close>
  when \<open>D\<close> is not zero and the time elapsed since the entry is \<open>D\<close> or more, or when
  \<open>N\<close> is not zero and \<open>j + 1\<close> attempts are \<open>N\<close> or more; a bound that is zero stops
  nothing. If the attempts fail up to the first test that stops, the reconnect ends exactly
  there, with the error "Nebula Down", the session unchanged, and no sleep after the last
  attempt. If every attempt fails, such a test exists as soon as \<open>N\<close> is not zero, or \<open>D\<close>
  is not zero and the clock reaches \<open>D\<close> at one of the tests: the reconnect then ends, and
  when \<open>N\<close> is not zero it ends after at most \<open>max N 1\<close> attempts. If every attempt fails
  and no test stops, as when both bounds are zero, the reconnect never returns.
\<close>

theorem reconnect_loop_bounds:
  assumes "is_TransportException err \<or> IsServerSessionError rsp"
    and "N = ReconnectConfig.MaxTime (reconnectCfg s)"
    and "D = MaxTimeDuration (reconnectCfg s)"
  shows
    "(reconnect_stops env s tr j \<longleftrightarrow>
        (D \<noteq> 0 \<and> D \<le> time_Now env (reconnect_check s tr j) - time_Now env tr)
        \<or> (N \<noteq> 0 \<and> N \<le> int j + 1))
     \<and> (reconnect_stops env s tr n \<and> (\<forall>j < n. \<not> reconnect_stops env s tr j)
        \<and> (\<forall>j \<le> n. fst (reConnect env s (tr @ reconnect_rounds s j)) \<noteq> None)
       \<longrightarrow> reconnectWithExecuteErr env s rsp err tr =
             Some (Ret (Some (Errorf ''Nebula Down''), s, reconnect_check s tr n)))
     \<and> ((N \<noteq> 0 \<or> (D \<noteq> 0 \<and> (\<exists>j. D \<le> time_Now env (reconnect_check s tr j) - time_Now env tr)))
        \<and> (\<forall>j. fst (reConnect env s (tr @ reconnect_rounds s j)) \<noteq> None)
       \<longrightarrow> (\<exists>n. reconnect_stops env s tr n \<and> (\<forall>j < n. \<not> reconnect_stops env s tr j)
              \<and> (N \<noteq> 0 \<longrightarrow> int n < max N 1)
              \<and> reconnectWithExecuteErr env s rsp err tr =
                  Some (Ret (Some (Errorf ''Nebula Down''), s, reconnect_check s tr n))))
     \<and> ((\<forall>j. \<not> reconnect_stops env s tr j)
        \<and> (\<forall>j. fst (reConnect env s (tr @ reconnect_rounds s j)) \<noteq> None)
       \<longrightarrow> reconnectWithExecuteErr env s rsp err tr = None)"
proof -
  have exact: "reconnectWithExecuteErr env s rsp err tr =
      Some (Ret (Some (Errorf ''Nebula Down''), s, reconnect_check s tr m))"
    if "reconnect_stops env s tr m" and "\<forall>j < m. \<not> reconnect_stops env s tr j"
      and "\<forall>j \<le> m. fst (reConnect env s (tr @ reconnect_rounds s j)) \<noteq> None" for m
  proof -
    have "(0::nat) \<le> m" by simp
    from reconnect_loop_first_stop [OF that(3,1,2) this] obtain e
      where "reconnect_loop env s 0 (time_Now env tr) tr = Some (Some e, s, reconnect_check s tr m)"
      by (auto simp: reconnect_rounds_def split: if_splits)
    from reconnectWithExecuteErr_exhausted [OF assms(1) this] show ?thesis .
  qed
  show ?thesis
  proof (intro conjI impI)
    show "reconnect_stops env s tr j \<longleftrightarrow>
        (D \<noteq> 0 \<and> D \<le> time_Now env (reconnect_check s tr j) - time_Now env tr)
        \<or> (N \<noteq> 0 \<and> N \<le> int j + 1)"
      by (simp add: reconnect_stops_def assms(2,3))
  next
    assume "reconnect_stops env s tr n \<and> (\<forall>j < n. \<not> reconnect_stops env s tr j)
        \<and> (\<forall>j \<le> n. fst (reConnect env s (tr @ reconnect_rounds s j)) \<noteq> None)"
    then show "reconnectWithExecuteErr env s rsp err tr =
             Some (Ret (Some (Errorf ''Nebula Down''), s, reconnect_check s tr n))"
      by (intro exact) simp_all
  next
    assume a: "(N \<noteq> 0 \<or> (D \<noteq> 0 \<and> (\<exists>j. D \<le> time_Now env (reconnect_check s tr j) - time_Now env tr)))
        \<and> (\<forall>j. fst (reConnect env s (tr @ reconnect_rounds s j)) \<noteq> None)"
    have "\<exists>j. reconnect_stops env s tr j \<and> (N \<noteq> 0 \<longrightarrow> int j < max N 1)"
    proof (cases "N \<noteq> 0")
      case True
      then have "reconnect_stops env s tr (nat (max N 1) - 1)"
        by (auto simp: reconnect_stops_def assms(2) [symmetric])
      moreover have "int (nat (max N 1) - 1) < max N 1" by auto
      ultimately show ?thesis by blast
    next
      case False
      with a obtain j where "D \<noteq> 0" "D \<le> time_Now env (reconnect_check s tr j) - time_Now env tr"
        by blast
      then have "reconnect_stops env s tr j" by (simp add: reconnect_stops_def assms(3))
      with False show ?thesis by blast
    qed
    then obtain j where j: "reconnect_stops env s tr j" "N \<noteq> 0 \<longrightarrow> int j < max N 1" by blast
    from first_stop_exists [OF j(1)] obtain m
      where m: "m \<le> j" "reconnect_stops env s tr m" "\<forall>i < m. \<not> reconnect_stops env s tr i"
      by blast
    from a have "\<forall>j \<le> m. fst (reConnect env s (tr @ reconnect_rounds s j)) \<noteq> None" by simp
    from exact [OF m(2,3) this] m j(2)
    show "\<exists>n. reconnect_stops env s tr n \<and> (\<forall>j < n. \<not> reconnect_stops env s tr j)
              \<and> (N \<noteq> 0 \<longrightarrow> int n < max N 1)
              \<and> reconnectWithExecuteErr env s rsp err tr =
                  Some (Ret (Some (Errorf ''Nebula Down''), s, reconnect_check s tr n))"
      by (intro exI [of _ m]) auto
  next
    assume a: "(\<forall>j. \<not> reconnect_stops env s tr j)
        \<and> (\<forall>j. fst (reConnect env s (tr @ reconnect_rounds s j)) \<noteq> None)"
    then have "reconnect_loop env s 0 (time_Now env tr) tr = None"
      by (intro reconnect_loop_never_stops) simp_all
    then show "reconnectWithExecuteErr env s rsp err tr = None"
      by (rule reconnectWithExecuteErr_never [OF assms(1)])
  qed
qed

lemmas ex_reconnect_defs = reconnect_stops_def reconnect_check_def reconnect_rounds_def
  reconnect_attempt_def ex_clock_sleeps_def ex_env_down_sleeps_def ex_session_both_def

lemma ex_reconnect_fails:
  "fst (reConnect ex_env_down ex_session_both h) \<noteq> None"
  "fst (reConnect ex_env_down ex_session h) \<noteq> None"
  "fst (reConnect ex_env_down_sleeps ex_session_timed h) \<noteq> None"
  "fst (reConnect ex_env_down ex_session_unbounded h) \<noteq> None"
  by (simp_all add: reConnect_def ex_defs ex_reconnect_defs)

theorem reconnect_loop_bounds_witness:
  "reconnectWithExecuteErr ex_env_down ex_session_both None (Some (TransportException ''EOF'')) [] =
      Some (Ret (Some (Errorf ''Nebula Down''), ex_session_both,
        [Ev_getIdleConn (ConnectionPool 0), Ev_log LogError]))
   \<and> reconnectWithExecuteErr ex_env_down ex_session None (Some (TransportException ''EOF'')) [] =
      Some (Ret (Some (Errorf ''Nebula Down''), ex_session,
        [Ev_getIdleConn (ConnectionPool 0), Ev_log LogError, Ev_Sleep 5,
         Ev_getIdleConn (ConnectionPool 0), Ev_log LogError]))
   \<and> reconnectWithExecuteErr ex_env_down_sleeps ex_session_timed None
        (Some (TransportException ''EOF'')) [] =
      Some (Ret (Some (Errorf ''Nebula Down''), ex_session_timed,
        [Ev_getIdleConn (ConnectionPool 0), Ev_log LogError, Ev_Sleep 5,
         Ev_getIdleConn (ConnectionPool 0), Ev_log LogError, Ev_Sleep 5,
         Ev_getIdleConn (ConnectionPool 0), Ev_log LogError]))
   \<and> (\<exists>n. int n < 2
        \<and> reconnectWithExecuteErr ex_env_down ex_session None (Some (TransportException ''EOF'')) [] =
            Some (Ret (Some (Errorf ''Nebula Down''), ex_session, reconnect_check ex_session [] n)))
   \<and> (\<exists>n. reconnectWithExecuteErr ex_env_down_sleeps ex_session_timed None
              (Some (TransportException ''EOF'')) [] =
            Some (Ret (Some (Errorf ''Nebula Down''), ex_session_timed,
              reconnect_check ex_session_timed [] n)))
   \<and> reconnectWithExecuteErr ex_env_down ex_session_unbounded None
        (Some (TransportException ''EOF'')) [] = None"
proof -
  have t: "is_TransportException (Some (TransportException ''EOF'')) \<or> IsServerSessionError None"
    by simp
  have 1: "reconnectWithExecuteErr ex_env_down ex_session_both None
        (Some (TransportException ''EOF'')) [] =
      Some (Ret (Some (Errorf ''Nebula Down''), ex_session_both,
        [Ev_getIdleConn (ConnectionPool 0), Ev_log LogError]))"
    using reconnect_loop_bounds [where env = ex_env_down and s = ex_session_both and tr = "[]"
        and n = 0, OF t refl refl] ex_reconnect_fails(1)
    by (simp add: ex_defs ex_reconnect_defs)
  have 2: "reconnectWithExecuteErr ex_env_down ex_session None
        (Some (TransportException ''EOF'')) [] =
      Some (Ret (Some (Errorf ''Nebula Down''), ex_session,
        [Ev_getIdleConn (ConnectionPool 0), Ev_log LogError, Ev_Sleep 5,
         Ev_getIdleConn (ConnectionPool 0), Ev_log LogError]))"
    using reconnect_loop_bounds [where env = ex_env_down and s = ex_session and tr = "[]"
        and n = 1, OF t refl refl] ex_reconnect_fails(2)
    by (simp add: ex_defs ex_reconnect_defs)
  have 3: "reconnectWithExecuteErr ex_env_down_sleeps ex_session_timed None
        (Some (TransportException ''EOF'')) [] =
      Some (Ret (Some (Errorf ''Nebula Down''), ex_session_timed,
        [Ev_getIdleConn (ConnectionPool 0), Ev_log LogError, Ev_Sleep 5,
         Ev_getIdleConn (ConnectionPool 0), Ev_log LogError, Ev_Sleep 5,
         Ev_getIdleConn (ConnectionPool 0), Ev_log LogError]))"
    using reconnect_loop_bounds [where env = ex_env_down_sleeps and s = ex_session_timed
        and tr = "[]" and n = 2, OF t refl refl] ex_reconnect_fails(3)
    by (simp add: ex_defs ex_reconnect_defs less_Suc_eq numeral_2_eq_2)
  have 4: "\<exists>n. int n < 2
        \<and> reconnectWithExecuteErr ex_env_down ex_session None (Some (TransportException ''EOF'')) [] =
            Some (Ret (Some (Errorf ''Nebula Down''), ex_session, reconnect_check ex_session [] n))"
    using reconnect_loop_bounds [where env = ex_env_down and s = ex_session and tr = "[]",
        OF t refl refl] ex_reconnect_fails(2)
    by (simp add: ex_defs) blast
  have "MaxTimeDuration (reconnectCfg ex_session_timed)
      \<le> time_Now ex_env_down_sleeps (reconnect_check ex_session_timed [] 2)
          - time_Now ex_env_down_sleeps []"
    by (simp add: ex_defs ex_reconnect_defs numeral_2_eq_2)
  then have "\<exists>j. MaxTimeDuration (reconnectCfg ex_session_timed)
      \<le> time_Now ex_env_down_sleeps (reconnect_check ex_session_timed [] j)
          - time_Now ex_env_down_sleeps []" ..
  with reconnect_loop_bounds [where env = ex_env_down_sleeps and s = ex_session_timed
        and tr = "[]", OF t refl refl] ex_reconnect_fails(3)
  have 6: "\<exists>n. reconnectWithExecuteErr ex_env_down_sleeps ex_session_timed None
              (Some (TransportException ''EOF'')) [] =
            Some (Ret (Some (Errorf ''Nebula Down''), ex_session_timed,
              reconnect_check ex_session_timed [] n))"
    by (simp add: ex_session_timed_def ex_session_def) blast
  have 5: "reconnectWithExecuteErr ex_env_down ex_session_unbounded None
        (Some (TransportException ''EOF'')) [] = None"
    using reconnect_loop_bounds [where env = ex_env_down and s = ex_session_unbounded
        and tr = "[]", OF t refl refl] ex_reconnect_fails(4)
    by (simp add: ex_defs ex_reconnect_defs)
  from 1 2 3 4 5 6 show ?thesis by simp
qed

section \<open>Release\<close>

text \<open>
  Claim C9. \<^verbatim>\<open>Release\<close> on a session leaves a session without a connection. A second
  \<^verbatim>\<open>Release\<close> changes nothing in the session and adds one event only, the warning
  logged: no sign-out, nothing returned to a pool. On the released session each of the four
  execute operations returns the error "failed to execute: Session has been released" and
  adds no event at all. (\<^verbatim>\<open>Release\<close> on a nil session does nothing.)
\<close>

theorem release_idempotent:
  "Release env None tr = (None, tr)
   \<and> (Release env (Some s) tr = (so, tr') \<longrightarrow>
        (\<exists>s'. so = Some s' \<and> connection s' = None
          \<and> Release env so tr' = (so, tr' @ [Ev_log LogWarn])
          \<and> ExecuteWithParameter env s' stmt params h =
              Some (Ret ((None, Some (Errorf ''failed to execute: Session has been released'')), s', h))
          \<and> Execute env s' stmt h =
              Some (Ret ((None, Some (Errorf ''failed to execute: Session has been released'')), s', h))
          \<and> ExecuteJsonWithParameter env s' stmt params h =
              Some (Ret ((None, Some (Errorf ''failed to execute: Session has been released'')), s', h))
          \<and> ExecuteJson env s' stmt h =
              Some (Ret ((None, Some (Errorf ''failed to execute: Session has been released'')), s', h))))"
  by (cases "connection s")
    (auto simp: Let_def ExecuteWithParameter_def Execute_def ExecuteJsonWithParameter_def
      ExecuteJson_def)

theorem release_idempotent_witness:
  "Release ex_env_boom (Some ex_session) [] =
     (Some (ex_session\<lparr>connection := None\<rparr>),
      [Ev_signOut (Conn 1) 7, Ev_release (ConnectionPool 0) (Some (Conn 1))])
   \<and> Release ex_env_boom (Some (ex_session\<lparr>connection := None\<rparr>))
       [Ev_signOut (Conn 1) 7, Ev_release (ConnectionPool 0) (Some (Conn 1))] =
     (Some (ex_session\<lparr>connection := None\<rparr>),
      [Ev_signOut (Conn 1) 7, Ev_release (ConnectionPool 0) (Some (Conn 1)), Ev_log LogWarn])
   \<and> Execute ex_env_boom (ex_session\<lparr>connection := None\<rparr>) ''RETURN 1''
       [Ev_signOut (Conn 1) 7, Ev_release (ConnectionPool 0) (Some (Conn 1))] =
     Some (Ret ((None, Some (Errorf ''failed to execute: Session has been released'')),
       ex_session\<lparr>connection := None\<rparr>,
       [Ev_signOut (Conn 1) 7, Ev_release (ConnectionPool 0) (Some (Conn 1))]))"
proof -
  have r: "Release ex_env_boom (Some ex_session) [] =
     (Some (ex_session\<lparr>connection := None\<rparr>),
      [Ev_signOut (Conn 1) 7, Ev_release (ConnectionPool 0) (Some (Conn 1))])"
    by (simp add: ex_defs)
  from release_idempotent [of ex_env_boom "[]" ex_session "Some (ex_session\<lparr>connection := None\<rparr>)"
      "[Ev_signOut (Conn 1) 7, Ev_release (ConnectionPool 0) (Some (Conn 1))]"
      "''RETURN 1''" "[]" "[Ev_signOut (Conn 1) 7, Ev_release (ConnectionPool 0) (Some (Conn 1))]"] r
  show ?thesis by auto
qed

section \<open>A session without a pool\<close>

text \<open>
  Claim C10. On a session whose two pool references are nil, \<^verbatim>\<open>reConnect\<close> returns
  nil and leaves the session (connection, identity and time stamp included) and the
  history as they are; the reconnect loop ends at its first iteration; and a reconnect
  triggered by a transport exception or an invalid session, on a session that holds a
  connection, logs the success and returns nil.
\<close>

theorem reConnect_without_pool:
  "connPool s = None \<and> sessPool s = None \<longrightarrow>
     reConnect env s tr = (None, s, tr)
     \<and> reconnect_loop env s k st tr = Some (None, s, tr)
     \<and> ((is_TransportException err \<or> IsServerSessionError rsp) \<and> connection s = Some c \<longrightarrow>
          reconnectWithExecuteErr env s rsp err tr = Some (Ret (None, s, tr @ [Ev_log LogInfo])))"
proof (intro impI conjI)
  assume a: "connPool s = None \<and> sessPool s = None"
  then show r: "reConnect env s tr = (None, s, tr)" for tr by (simp add: reConnect_def)
  then show l: "reconnect_loop env s k st tr = Some (None, s, tr)" for k st tr
    by (subst reconnect_loop.simps) simp
  assume "(is_TransportException err \<or> IsServerSessionError rsp) \<and> connection s = Some c"
  then show "reconnectWithExecuteErr env s rsp err tr = Some (Ret (None, s, tr @ [Ev_log LogInfo]))"
    by (auto simp: reconnectWithExecuteErr_def l)
qed

theorem reConnect_without_pool_witness:
  "connPool ex_session_standalone = None \<and> sessPool ex_session_standalone = None
   \<and> connection ex_session_standalone = Some (Conn 1)
   \<and> reConnect ex_env_down ex_session_standalone [] = (None, ex_session_standalone, [])
   \<and> reconnectWithExecuteErr ex_env_down ex_session_standalone None
       (Some (TransportException ''EOF'')) [] =
       Some (Ret (None, ex_session_standalone, [Ev_log LogInfo]))"
  using reConnect_without_pool [of ex_session_standalone ex_env_down "[]" 0 0
      "Some (TransportException ''EOF'')" None "Conn 1"]
  by (simp add: ex_defs)

end
